theory Spec2Isabelle
  imports Complex_Main "HOL-Library.Product_Lexorder"
begin

section \<open>Python exceptions as values\<close>

text \<open>
  Every place where the Python code raises is a branch of the model returning
  \<open>Inl\<close> of one of these; a normal return is \<open>Inr\<close>.
\<close>

datatype error = IndexError | KeyError | AttributeError | RuntimeError | TypeError | ValueError

section \<open>The AutoGM aggregator (blades/aggregators/autogm.py)\<close>

text \<open>
  Update vectors are elements of a real normed vector space \<open>'v\<close>: all vectors of
  one call have the same dimension by typing, \<open>(v1 - v2).norm()\<close> is \<open>norm (v1 - v2)\<close>,
  and floating-point numbers are idealised as reals.  The type \<open>real\<close> itself is the
  instance of dimension 1.
\<close>

definition compute_euclidean_distance :: "'v::real_normed_vector \<Rightarrow> 'v \<Rightarrow> real" where
  "compute_euclidean_distance v1 v2 = norm (v1 - v2)"

text \<open>\<open>sum([alpha * dist(median, p) for alpha, p in zip(alphas, points)])\<close>\<close>

definition geometric_median_objective :: "'v::real_normed_vector \<Rightarrow> 'v list \<Rightarrow> real list \<Rightarrow> real" where
  "geometric_median_objective median points alphas =
     sum_list (map (\<lambda>(alpha, p). alpha * compute_euclidean_distance median p) (zip alphas points))"

text \<open>\<open>np.linalg.norm\<close> of a one-dimensional array.\<close>

definition linalg_norm :: "real list \<Rightarrow> real" where
  "linalg_norm a = sqrt (sum_list (map (\<lambda>x. x\<^sup>2) a))"

text \<open>
  Line 41: \<open>idxs = [x for x, _ in sorted(enumerate(distance), key=lambda x: x)]\<close>.
  The sort key is the whole pair \<open>(index, distance)\<close>; Python compares tuples
  lexicographically, which is the order of \<open>Product_Lexorder\<close>, and \<open>sorted\<close> is
  stable, as \<open>sort_key\<close> is.
\<close>

definition idxs_of :: "real list \<Rightarrow> nat list" where
  "idxs_of distance = map fst (sort_key (\<lambda>x. x) (enumerate 0 distance))"

text \<open>
  Lines 43-48, the loop \<open>for p in range(0, len(idxs))\<close> with its \<open>break\<close>.  The
  fourth argument is \<open>p\<close>, the fifth the number of iterations left, the last the
  current \<open>eta_optimal\<close>.  Every index in \<open>idxs\<close> is below \<open>len(distance)\<close>.
\<close>

fun threshold_loop :: "real list \<Rightarrow> nat list \<Rightarrow> real \<Rightarrow> nat \<Rightarrow> nat \<Rightarrow> real \<Rightarrow> real" where
  "threshold_loop distance idxs lamb p 0 eta_optimal = eta_optimal"
| "threshold_loop distance idxs lamb p (Suc r) eta_optimal =
     (let eta = (sum_list (map (\<lambda>i. distance ! i) (take (p + 1) idxs)) + lamb) / real (p + 1)
      in if p < length idxs \<and> eta - distance ! (idxs ! p) < 0 then eta_optimal
         else threshold_loop distance idxs lamb (p + 1) r eta)"

definition eta_optimal_of :: "real \<Rightarrow> real list \<Rightarrow> real" where
  "eta_optimal_of lamb distance =
     (let idxs = idxs_of distance
      in threshold_loop distance idxs lamb 0 (length idxs) 10000000000000000)"

text \<open>Line 49: \<open>alpha = np.array([max(eta_optimal - d, 0) / lamb for d in distance])\<close>\<close>

definition alpha_of :: "real \<Rightarrow> real list \<Rightarrow> real list" where
  "alpha_of lamb distance =
     (let eta_optimal = eta_optimal_of lamb distance
      in map (\<lambda>d. max (eta_optimal - d) 0 / lamb) distance)"

text \<open>
  Lines 37-53, the body of the loop \<open>for i in range(maxiter)\<close> up to its test:
  from the current median it computes the distances, the new weights, the new
  median and the new value of \<open>global_obj\<close>.  The solver \<open>self.gm_agg\<close> is the class
  \<open>Geomed\<close> of geomed.py; it is the parameter \<open>gm_agg\<close>, which may raise.
\<close>

definition outer_step ::
  "('v::real_normed_vector list \<Rightarrow> real list \<Rightarrow> error + 'v) \<Rightarrow> 'v list \<Rightarrow> real
     \<Rightarrow> 'v \<Rightarrow> error + ('v \<times> real)" where
  "outer_step gm_agg updates lamb median =
     (let distance = map (\<lambda>local_model. compute_euclidean_distance local_model median) updates;
          alpha = alpha_of lamb distance
      in case gm_agg updates alpha of
           Inl e \<Rightarrow> Inl e
         | Inr median' \<Rightarrow>
             (let gm_sum = geometric_median_objective median' updates alpha;
                  global_obj = gm_sum + lamb * (linalg_norm alpha)\<^sup>2 / 2
              in Inr (median', global_obj)))"

text \<open>
  Lines 36-55, the loop with its test and \<open>break\<close> (lines 54-55).  The natural
  number counts the iterations left.
\<close>

fun outer_loop ::
  "('v::real_normed_vector list \<Rightarrow> real list \<Rightarrow> error + 'v) \<Rightarrow> 'v list \<Rightarrow> real \<Rightarrow> real
     \<Rightarrow> nat \<Rightarrow> 'v \<Rightarrow> real \<Rightarrow> error + 'v" where
  "outer_loop gm_agg updates lamb ftol 0 median global_obj = Inr median"
| "outer_loop gm_agg updates lamb ftol (Suc n) median global_obj =
     (let prev_global_obj = global_obj
      in case outer_step gm_agg updates lamb median of
           Inl e \<Rightarrow> Inl e
         | Inr (median', global_obj') \<Rightarrow>
             if \<bar>prev_global_obj - global_obj'\<bar> < ftol * global_obj' then Inr median'
             else outer_loop gm_agg updates lamb ftol n median' global_obj')"

text \<open>
  The aggregator object: its only mutable attribute is \<open>self.momentum\<close>
  (\<open>None\<close> until the first call).
\<close>

record 'v Autogm =
  momentum :: "'v option"

text \<open>
  \<open>Autogm.__call__\<close>, from the list \<open>updates\<close> on (line 26 collects it from the
  clients' \<open>get_update\<close>).  \<open>updates[0]\<close> in line 28 raises IndexError on the empty
  list; \<open>torch.zeros_like\<close> gives the zero vector.  The arguments \<open>weights\<close> and \<open>eps\<close>
  are never used.  The result is the returned vector and the aggregator afterwards;
  when the call raises, the model gives the error only.
\<close>

definition Autogm_call ::
  "('v::real_normed_vector list \<Rightarrow> real list \<Rightarrow> error + 'v) \<Rightarrow> 'v Autogm \<Rightarrow> 'v list
     \<Rightarrow> nat \<Rightarrow> real \<Rightarrow> error + ('v \<times> 'v Autogm)" where
  "Autogm_call gm_agg self updates maxiter ftol =
     (case (if momentum self = None
            then (case updates of [] \<Rightarrow> Inl IndexError
                  | u # us \<Rightarrow> Inr (self\<lparr>momentum := Some 0\<rparr>))
            else Inr self) of
        Inl e \<Rightarrow> Inl e
      | Inr self1 \<Rightarrow>
          (let lamb = real (1 * length updates);
               alpha = replicate (length updates) (1 / real (length updates))
           in case gm_agg updates alpha of
                Inl e \<Rightarrow> Inl e
              | Inr median \<Rightarrow>
                  (let obj_val = geometric_median_objective median updates alpha;
                       global_obj = obj_val + lamb * (linalg_norm alpha)\<^sup>2 / 2
                   in case outer_loop gm_agg updates lamb ftol maxiter median global_obj of
                        Inl e \<Rightarrow> Inl e
                      | Inr median' \<Rightarrow> Inr (median', self1\<lparr>momentum := Some median'\<rparr>))))"

text \<open>
  The order the specification describes for the threshold search: indices sorted
  ascending by distance, ties by original index (a stable sort on the distance).
\<close>

definition spec_sorted_idxs :: "real list \<Rightarrow> nat list" where
  "spec_sorted_idxs distance = map fst (sort_key snd (enumerate 0 distance))"

definition spec_eta_optimal :: "real \<Rightarrow> real list \<Rightarrow> real" where
  "spec_eta_optimal lamb distance =
     (let idxs = spec_sorted_idxs distance
      in threshold_loop distance idxs lamb 0 (length idxs) 10000000000000000)"

section \<open>The client (blades/client.py)\<close>

text \<open>
  A tensor is the list of its elements in the order of \<open>view(-1)\<close>; shapes are not
  modelled.  A parameter object is named by a number.  \<open>self.state\<close> is a
  \<open>defaultdict(dict)\<close>: \<open>self.state[p]\<close> is a dictionary with the optional keys
  \<open>"saved_grad"\<close> and \<open>"momentum_buffer"\<close> (a missing key is \<open>None\<close>), and
  \<open>self.state['saved_update']\<close> is the saved update, when there is one.
\<close>

type_synonym pid = nat

record 'a param_state =
  saved_grad :: "'a list option"
  momentum_buffer :: "'a list option"

record 'a TorchClient =
  model_parameters :: "pid list"
  param_groups :: "pid list list"
  p_grad :: "pid \<Rightarrow> 'a list option"
  state :: "pid \<Rightarrow> 'a param_state"
  saved_update :: "'a list option"

text \<open>
  \<open>model_parameters\<close> is \<open>self.model.parameters()\<close>, \<open>param_groups\<close> lists
  \<open>group["params"]\<close> for each group of \<open>self.optimizer.param_groups\<close>, and
  \<open>p_grad st p\<close> is \<open>p.grad\<close>.  The subclass adds \<open>self.momentum\<close>, here
  \<open>client_momentum\<close> (the aggregator has an attribute of the same name).
\<close>

record 'a ClientWithMomentum = "'a TorchClient" +
  client_momentum :: real

text \<open>
  Elements of a floating-point tensor, for \<open>torch.nan_to_num\<close>.  With its default
  arguments this library function replaces NaN by zero, positive infinity by the
  greatest finite value of the tensor's dtype and negative infinity by the least
  one; \<open>fmax\<close> is that greatest finite value.
\<close>

datatype fval = Finite real | PosInf | NegInf | NaN

definition nan_to_num_elem :: "real \<Rightarrow> fval \<Rightarrow> fval" where
  "nan_to_num_elem fmax x =
     (case x of Finite r \<Rightarrow> Finite r | PosInf \<Rightarrow> Finite fmax
      | NegInf \<Rightarrow> Finite (- fmax) | NaN \<Rightarrow> Finite 0)"

definition nan_to_num :: "real \<Rightarrow> fval list \<Rightarrow> fval list" where
  "nan_to_num fmax t = map (nan_to_num_elem fmax) t"

text \<open>The greatest finite value of \<open>torch.float32\<close>, the default dtype.\<close>

definition float32_max :: real where
  "float32_max = (2 - 1 / 2 ^ 23) * 2 ^ 127"

text \<open>\<open>torch.cat\<close> of a list of one-dimensional tensors; it refuses the empty list.\<close>

definition torch_cat :: "'a list list \<Rightarrow> error + 'a list" where
  "torch_cat ts = (case ts of [] \<Rightarrow> Inl RuntimeError | t # ts' \<Rightarrow> Inr (concat (t # ts')))"

text \<open>\<open>_save_update\<close> and \<open>_get_saved_update\<close> (lines 183-187).\<close>

definition save_update :: "'a list \<Rightarrow> ('a, 'z) TorchClient_scheme \<Rightarrow> ('a, 'z) TorchClient_scheme" where
  "save_update update st = st\<lparr>saved_update := Some update\<rparr>"

definition get_saved_update :: "('a, 'z) TorchClient_scheme \<Rightarrow> 'a list option" where
  "get_saved_update st = saved_update st"

text \<open>
  \<open>get_update\<close> (lines 161-162).  When no update was saved the defaultdict hands out
  an empty dictionary, on which \<open>torch.nan_to_num\<close> raises TypeError.
\<close>

definition get_update :: "real \<Rightarrow> (fval, 'z) TorchClient_scheme \<Rightarrow> error + fval list" where
  "get_update fmax st =
     (case get_saved_update st of None \<Rightarrow> Inl TypeError
      | Some u \<Rightarrow> Inr (nan_to_num fmax u))"

text \<open>\<open>_save_grad\<close> (lines 175-181): the body for one parameter, then the two loops.\<close>

definition save_grad_param :: "pid \<Rightarrow> ('a, 'z) TorchClient_scheme \<Rightarrow> ('a, 'z) TorchClient_scheme" where
  "save_grad_param p st =
     (case p_grad st p of
        None \<Rightarrow> st
      | Some g \<Rightarrow> st\<lparr>state := (state st)(p := (state st p)\<lparr>saved_grad := Some g\<rparr>)\<rparr>)"

definition save_grad :: "('a, 'z) TorchClient_scheme \<Rightarrow> ('a, 'z) TorchClient_scheme" where
  "save_grad st = fold save_grad_param (concat (param_groups st)) st"

text \<open>
  \<open>_get_saved_grad\<close> (lines 211-217): \<open>param_state["saved_grad"]\<close> raises KeyError
  when the key is missing; there is no test of \<open>p.grad\<close> here.
\<close>

fun collect_saved_grad ::
  "pid list \<Rightarrow> ('a, 'z) TorchClient_scheme \<Rightarrow> 'a list list \<Rightarrow> error + 'a list list" where
  "collect_saved_grad [] st layer_gradients = Inr layer_gradients"
| "collect_saved_grad (p # ps) st layer_gradients =
     (case saved_grad (state st p) of
        None \<Rightarrow> Inl KeyError
      | Some g \<Rightarrow> collect_saved_grad ps st (layer_gradients @ [g]))"

definition get_saved_grad :: "('a, 'z) TorchClient_scheme \<Rightarrow> error + 'a list" where
  "get_saved_grad st =
     (case collect_saved_grad (concat (param_groups st)) st [] of
        Inl e \<Rightarrow> Inl e
      | Inr layer_gradients \<Rightarrow> torch_cat layer_gradients)"

definition get_gradient :: "('a, 'z) TorchClient_scheme \<Rightarrow> error + 'a list" where
  "get_gradient st = get_saved_grad st"

text \<open>
  \<open>set_gradient\<close> (lines 167-173).  \<open>p.grad.view(-1)\<close> raises AttributeError when
  \<open>p.grad\<close> is \<open>None\<close>; a slice shorter than the gradient cannot be reshaped
  (RuntimeError).  The second argument is \<open>beg\<close>.
\<close>

fun set_gradient_loop ::
  "'a list \<Rightarrow> nat \<Rightarrow> pid list \<Rightarrow> ('a, 'z) TorchClient_scheme \<Rightarrow> error + ('a, 'z) TorchClient_scheme" where
  "set_gradient_loop gradient beg [] st = Inr st"
| "set_gradient_loop gradient beg (p # ps) st =
     (case p_grad st p of
        None \<Rightarrow> Inl AttributeError
      | Some g \<Rightarrow>
          (let end = beg + length g;
               x = take (end - beg) (drop beg gradient)
           in if length x \<noteq> length g then Inl RuntimeError
              else set_gradient_loop gradient end ps (st\<lparr>p_grad := (p_grad st)(p := Some x)\<rparr>)))"

definition set_gradient ::
  "'a list \<Rightarrow> ('a, 'z) TorchClient_scheme \<Rightarrow> error + ('a, 'z) TorchClient_scheme" where
  "set_gradient gradient st = set_gradient_loop gradient 0 (model_parameters st) st"

text \<open>
  \<open>ClientWithMomentum._save_grad\<close> (lines 230-240).  With a buffer present,
  \<open>param_state["momentum_buffer"].mul_(m).add_(p.grad.mul_(1 - m))\<close> runs three
  in-place operations: the buffer is scaled by \<open>m\<close>, \<open>p.grad\<close> is scaled by
  \<open>1 - m\<close>, and the scaled gradient is added to the buffer.  The elements are
  reals: the rounding of each floating-point operation is not modelled.  Tensors
  of different sizes cannot be added (RuntimeError); broadcasting of a one-element
  gradient is not modelled.
\<close>

definition momentum_save_grad_param ::
  "pid \<Rightarrow> (real, 'z) ClientWithMomentum_scheme \<Rightarrow> error + (real, 'z) ClientWithMomentum_scheme" where
  "momentum_save_grad_param p st =
     (case p_grad st p of
        None \<Rightarrow> Inr st
      | Some g \<Rightarrow>
          (case momentum_buffer (state st p) of
             None \<Rightarrow> Inr (st\<lparr>state := (state st)(p := (state st p)\<lparr>momentum_buffer := Some g\<rparr>)\<rparr>)
           | Some b \<Rightarrow>
               (let b1 = map (\<lambda>x. x * client_momentum st) b;
                    g1 = map (\<lambda>x. x * (1 - client_momentum st)) g
                in if length b1 \<noteq> length g1 then Inl RuntimeError
                   else Inr (st\<lparr>p_grad := (p_grad st)(p := Some g1),
                                state := (state st)(p := (state st p)\<lparr>momentum_buffer := Some (map2 (+) b1 g1)\<rparr>)\<rparr>))))"

fun momentum_save_grad_loop ::
  "pid list \<Rightarrow> (real, 'z) ClientWithMomentum_scheme \<Rightarrow> error + (real, 'z) ClientWithMomentum_scheme" where
  "momentum_save_grad_loop [] st = Inr st"
| "momentum_save_grad_loop (p # ps) st =
     (case momentum_save_grad_param p st of
        Inl e \<Rightarrow> Inl e
      | Inr st' \<Rightarrow> momentum_save_grad_loop ps st')"

definition ClientWithMomentum_save_grad ::
  "(real, 'z) ClientWithMomentum_scheme \<Rightarrow> error + (real, 'z) ClientWithMomentum_scheme" where
  "ClientWithMomentum_save_grad st = momentum_save_grad_loop (concat (param_groups st)) st"

text \<open>\<open>ClientWithMomentum._get_saved_grad\<close> (lines 242-248).\<close>

fun collect_momentum_buffer ::
  "pid list \<Rightarrow> ('a, 'z) TorchClient_scheme \<Rightarrow> 'a list list \<Rightarrow> error + 'a list list" where
  "collect_momentum_buffer [] st layer_gradients = Inr layer_gradients"
| "collect_momentum_buffer (p # ps) st layer_gradients =
     (case momentum_buffer (state st p) of
        None \<Rightarrow> Inl KeyError
      | Some b \<Rightarrow> collect_momentum_buffer ps st (layer_gradients @ [b]))"

definition ClientWithMomentum_get_saved_grad :: "('a, 'z) TorchClient_scheme \<Rightarrow> error + 'a list" where
  "ClientWithMomentum_get_saved_grad st =
     (case collect_momentum_buffer (concat (param_groups st)) st [] of
        Inl e \<Rightarrow> Inl e
      | Inr layer_gradients \<Rightarrow> torch_cat layer_gradients)"

text \<open>
  \<open>compute_gradient\<close> (lines 83-94) of the momentum client.  The forward and
  backward pass is external: after \<open>self.optimizer.zero_grad()\<close> and
  \<open>loss.backward()\<close> each \<open>p.grad\<close> holds the gradient of the batch, here the
  argument \<open>G\<close>; then \<open>self._save_grad()\<close> runs.  \<open>train_steps k\<close> supplies the same
  gradients at \<open>k\<close> consecutive steps.
\<close>

definition compute_gradient ::
  "(pid \<Rightarrow> real list option) \<Rightarrow> (real, 'z) ClientWithMomentum_scheme
     \<Rightarrow> error + (real, 'z) ClientWithMomentum_scheme" where
  "compute_gradient G st = ClientWithMomentum_save_grad (st\<lparr>p_grad := G\<rparr>)"

fun train_steps ::
  "nat \<Rightarrow> (pid \<Rightarrow> real list option) \<Rightarrow> (real, 'z) ClientWithMomentum_scheme
     \<Rightarrow> error + (real, 'z) ClientWithMomentum_scheme" where
  "train_steps 0 G st = Inr st"
| "train_steps (Suc k) G st =
     (case compute_gradient G st of
        Inl e \<Rightarrow> Inl e
      | Inr st' \<Rightarrow> train_steps k G st')"

text \<open>
  A client after \<open>__init__\<close> (lines 16-27) and \<open>set_model\<close> (lines 46-48): the
  optimizer is built from \<open>self.model.parameters()\<close>, so there is one parameter
  group, holding the model's parameters; nothing has a gradient and \<open>self.state\<close>
  is empty.
\<close>

definition fresh_client :: "pid list \<Rightarrow> 'a TorchClient" where
  "fresh_client ps =
     \<lparr>model_parameters = ps, param_groups = [ps], p_grad = (\<lambda>p. None),
      state = (\<lambda>p. \<lparr>saved_grad = None, momentum_buffer = None\<rparr>), saved_update = None\<rparr>"

section \<open>The client of simulators/actor.py\<close>

text \<open>
  The same operations as they are written in actor.py, on the same state:
  \<open>TorchClient\<close> (lines 127-194) and \<open>WorkerWithMomentum\<close> (lines 204-232).
  First \<open>_get_saved_update\<close> (lines 163-164) and \<open>get_update\<close> (lines 130-131).
\<close>

definition actor_get_saved_update :: "('a, 'z) TorchClient_scheme \<Rightarrow> 'a list option" where
  "actor_get_saved_update st = saved_update st"

definition actor_get_update :: "real \<Rightarrow> (fval, 'z) TorchClient_scheme \<Rightarrow> error + fval list" where
  "actor_get_update fmax st =
     (case actor_get_saved_update st of None \<Rightarrow> Inl TypeError
      | Some u \<Rightarrow> Inr (nan_to_num fmax u))"

text \<open>\<open>_save_grad\<close> (lines 152-158).\<close>

definition actor_save_grad_param :: "pid \<Rightarrow> ('a, 'z) TorchClient_scheme \<Rightarrow> ('a, 'z) TorchClient_scheme" where
  "actor_save_grad_param p st =
     (case p_grad st p of
        None \<Rightarrow> st
      | Some g \<Rightarrow> st\<lparr>state := (state st)(p := (state st p)\<lparr>saved_grad := Some g\<rparr>)\<rparr>)"

definition actor_save_grad :: "('a, 'z) TorchClient_scheme \<Rightarrow> ('a, 'z) TorchClient_scheme" where
  "actor_save_grad st = fold actor_save_grad_param (concat (param_groups st)) st"

text \<open>\<open>_get_saved_grad\<close> (lines 188-194) and \<open>get_gradient\<close> (lines 127-128).\<close>

fun actor_collect_saved_grad ::
  "pid list \<Rightarrow> ('a, 'z) TorchClient_scheme \<Rightarrow> 'a list list \<Rightarrow> error + 'a list list" where
  "actor_collect_saved_grad [] st layer_gradients = Inr layer_gradients"
| "actor_collect_saved_grad (p # ps) st layer_gradients =
     (case saved_grad (state st p) of
        None \<Rightarrow> Inl KeyError
      | Some g \<Rightarrow> actor_collect_saved_grad ps st (layer_gradients @ [g]))"

definition actor_get_saved_grad :: "('a, 'z) TorchClient_scheme \<Rightarrow> error + 'a list" where
  "actor_get_saved_grad st =
     (case actor_collect_saved_grad (concat (param_groups st)) st [] of
        Inl e \<Rightarrow> Inl e
      | Inr layer_gradients \<Rightarrow> torch_cat layer_gradients)"

definition actor_get_gradient :: "('a, 'z) TorchClient_scheme \<Rightarrow> error + 'a list" where
  "actor_get_gradient st = actor_get_saved_grad st"

text \<open>\<open>set_gradient\<close> (lines 136-142).\<close>

fun actor_set_gradient_loop ::
  "'a list \<Rightarrow> nat \<Rightarrow> pid list \<Rightarrow> ('a, 'z) TorchClient_scheme \<Rightarrow> error + ('a, 'z) TorchClient_scheme" where
  "actor_set_gradient_loop gradient beg [] st = Inr st"
| "actor_set_gradient_loop gradient beg (p # ps) st =
     (case p_grad st p of
        None \<Rightarrow> Inl AttributeError
      | Some g \<Rightarrow>
          (let end = beg + length g;
               x = take (end - beg) (drop beg gradient)
           in if length x \<noteq> length g then Inl RuntimeError
              else actor_set_gradient_loop gradient end ps (st\<lparr>p_grad := (p_grad st)(p := Some x)\<rparr>)))"

definition actor_set_gradient ::
  "'a list \<Rightarrow> ('a, 'z) TorchClient_scheme \<Rightarrow> error + ('a, 'z) TorchClient_scheme" where
  "actor_set_gradient gradient st = actor_set_gradient_loop gradient 0 (model_parameters st) st"

text \<open>\<open>WorkerWithMomentum._save_grad\<close> (lines 214-224).\<close>

definition WorkerWithMomentum_save_grad_param ::
  "pid \<Rightarrow> (real, 'z) ClientWithMomentum_scheme \<Rightarrow> error + (real, 'z) ClientWithMomentum_scheme" where
  "WorkerWithMomentum_save_grad_param p st =
     (case p_grad st p of
        None \<Rightarrow> Inr st
      | Some g \<Rightarrow>
          (case momentum_buffer (state st p) of
             None \<Rightarrow> Inr (st\<lparr>state := (state st)(p := (state st p)\<lparr>momentum_buffer := Some g\<rparr>)\<rparr>)
           | Some b \<Rightarrow>
               (let b1 = map (\<lambda>x. x * client_momentum st) b;
                    g1 = map (\<lambda>x. x * (1 - client_momentum st)) g
                in if length b1 \<noteq> length g1 then Inl RuntimeError
                   else Inr (st\<lparr>p_grad := (p_grad st)(p := Some g1),
                                state := (state st)(p := (state st p)\<lparr>momentum_buffer := Some (map2 (+) b1 g1)\<rparr>)\<rparr>))))"

fun WorkerWithMomentum_save_grad_loop ::
  "pid list \<Rightarrow> (real, 'z) ClientWithMomentum_scheme \<Rightarrow> error + (real, 'z) ClientWithMomentum_scheme" where
  "WorkerWithMomentum_save_grad_loop [] st = Inr st"
| "WorkerWithMomentum_save_grad_loop (p # ps) st =
     (case WorkerWithMomentum_save_grad_param p st of
        Inl e \<Rightarrow> Inl e
      | Inr st' \<Rightarrow> WorkerWithMomentum_save_grad_loop ps st')"

definition WorkerWithMomentum_save_grad ::
  "(real, 'z) ClientWithMomentum_scheme \<Rightarrow> error + (real, 'z) ClientWithMomentum_scheme" where
  "WorkerWithMomentum_save_grad st = WorkerWithMomentum_save_grad_loop (concat (param_groups st)) st"

text \<open>\<open>WorkerWithMomentum._get_saved_grad\<close> (lines 226-232).\<close>

fun WorkerWithMomentum_collect_buffer ::
  "pid list \<Rightarrow> ('a, 'z) TorchClient_scheme \<Rightarrow> 'a list list \<Rightarrow> error + 'a list list" where
  "WorkerWithMomentum_collect_buffer [] st layer_gradients = Inr layer_gradients"
| "WorkerWithMomentum_collect_buffer (p # ps) st layer_gradients =
     (case momentum_buffer (state st p) of
        None \<Rightarrow> Inl KeyError
      | Some b \<Rightarrow> WorkerWithMomentum_collect_buffer ps st (layer_gradients @ [b]))"

definition WorkerWithMomentum_get_saved_grad :: "('a, 'z) TorchClient_scheme \<Rightarrow> error + 'a list" where
  "WorkerWithMomentum_get_saved_grad st =
     (case WorkerWithMomentum_collect_buffer (concat (param_groups st)) st [] of
        Inl e \<Rightarrow> Inl e
      | Inr layer_gradients \<Rightarrow> torch_cat layer_gradients)"

text \<open>
  A fresh \<open>ClientWithMomentum\<close> of client.py, whose \<open>__init__\<close> (lines 226-228) also
  stores the momentum factor.
\<close>

definition fresh_momentum_client :: "real \<Rightarrow> pid list \<Rightarrow> real ClientWithMomentum" where
  "fresh_momentum_client m ps =
     \<lparr>model_parameters = ps, param_groups = [ps], p_grad = (\<lambda>p. None),
      state = (\<lambda>p. \<lparr>saved_grad = None, momentum_buffer = None\<rparr>), saved_update = None,
      client_momentum = m\<rparr>"

section \<open>Auxiliary notions for the aggregator\<close>

text \<open>
  The loop of lines 36-55 without its test: the median and the value of
  \<open>global_obj\<close> after \<open>k\<close> further executions of the body.
\<close>

fun iterate ::
  "('v::real_normed_vector list \<Rightarrow> real list \<Rightarrow> error + 'v) \<Rightarrow> 'v list \<Rightarrow> real
     \<Rightarrow> nat \<Rightarrow> 'v \<times> real \<Rightarrow> error + ('v \<times> real)" where
  "iterate gm_agg updates lamb 0 s = Inr s"
| "iterate gm_agg updates lamb (Suc k) s =
     (case outer_step gm_agg updates lamb (fst s) of
        Inl e \<Rightarrow> Inl e
      | Inr s' \<Rightarrow> iterate gm_agg updates lamb k s')"

text \<open>
  The test of line 54 between the objective after \<open>j\<close> executions of the body
  (\<open>prev_global_obj\<close>) and the one after \<open>j + 1\<close> executions.
\<close>

definition converged_at ::
  "('v::real_normed_vector list \<Rightarrow> real list \<Rightarrow> error + 'v) \<Rightarrow> 'v list \<Rightarrow> real \<Rightarrow> real
     \<Rightarrow> 'v \<times> real \<Rightarrow> nat \<Rightarrow> bool" where
  "converged_at gm_agg updates lamb ftol s j =
     (case (iterate gm_agg updates lamb j s, iterate gm_agg updates lamb (Suc j) s) of
        (Inr (m, prev_global_obj), Inr (m', global_obj)) \<Rightarrow>
           \<bar>prev_global_obj - global_obj\<bar> < ftol * global_obj
      | _ \<Rightarrow> False)"

text \<open>
  The objective as the specification writes it:
  \<open>[\<Sum>i. \<alpha>\<^sub>i * \<parallel>median - update\<^sub>i\<parallel>] + (\<lambda>/2) * \<parallel>\<alpha>\<parallel>\<^sup>2\<close>.
\<close>

definition spec_objective :: "real \<Rightarrow> 'v::real_normed_vector \<Rightarrow> 'v list \<Rightarrow> real list \<Rightarrow> real" where
  "spec_objective lamb median updates alpha =
     (\<Sum>i<length updates. alpha ! i * norm (median - updates ! i))
       + lamb / 2 * (\<Sum>i<length alpha. (alpha ! i)\<^sup>2)"

text \<open>
  What the solver is for: \<open>m\<close> is a weighted geometric median of the points when no
  point has a smaller weighted sum of distances.
\<close>

definition is_geometric_median :: "'v::real_normed_vector \<Rightarrow> 'v list \<Rightarrow> real list \<Rightarrow> bool" where
  "is_geometric_median m points weights \<longleftrightarrow>
     (\<forall>y. geometric_median_objective m points weights \<le> geometric_median_objective y points weights)"

definition solves ::
  "('v::real_normed_vector list \<Rightarrow> real list \<Rightarrow> error + 'v) \<Rightarrow> 'v list \<Rightarrow> real list \<Rightarrow> bool" where
  "solves gm_agg points weights \<longleftrightarrow>
     (\<exists>m. gm_agg points weights = Inr m \<and> is_geometric_median m points weights)"

text \<open>
  Modelled from the spec: \<open>GeometricMedianSolver.solve\<close> (the class \<open>Geomed\<close> of
  geomed.py, which is not among the sources), in dimension 1 only.  The
  specification asks for the point minimising the weighted sum of distances, with
  the precondition \<open>N \<ge> 1\<close>; on the real line that point is a weighted median: the
  first point, in ascending order, at which the accumulated weight reaches half of
  the total weight.  An empty list of points, or weights that are not one per
  point, are refused.  It serves as a concrete solver; the theorems about the
  aggregator hold for every solver.  (The scan is never run on the empty list.)
\<close>

fun weighted_median_scan :: "(real \<times> real) list \<Rightarrow> real \<Rightarrow> real \<Rightarrow> real" where
  "weighted_median_scan [] acc half = 0"
| "weighted_median_scan [(p, w)] acc half = p"
| "weighted_median_scan ((p, w) # rest) acc half =
     (if half \<le> acc + w then p else weighted_median_scan rest (acc + w) half)"

definition geomed_1d :: "real list \<Rightarrow> real list \<Rightarrow> error + real" where
  "geomed_1d points weights =
     (if points = [] \<or> length weights \<noteq> length points then Inl ValueError
      else (let pairs = sort_key fst (zip points weights)
            in Inr (weighted_median_scan pairs 0 (sum_list (map snd pairs) / 2))))"

text \<open>
  Two calls of the aggregator on the same five one-dimensional updates, the second
  with the first and the fourth update exchanged.
\<close>

definition example_updates :: "real list" where
  "example_updates = [0, - 3, - 1, 50, 60]"

definition example_updates_permuted :: "real list" where
  "example_updates_permuted = [50, - 3, - 1, 0, 60]"

section \<open>The threshold search\<close>

lemma sorted_pairs_of_increasing_fst:
  fixes ps :: "(nat \<times> real) list"
  shows "sorted_wrt (<) (map fst ps) \<Longrightarrow> sorted ps"
  by (induction ps) (auto simp: less_eq_prod_def)

lemma sorted_enumerate: "sorted (enumerate n (xs :: real list))"
proof -
  have "sorted_wrt (<) (map fst (enumerate n xs))"
    by simp
  then show ?thesis
    by (rule sorted_pairs_of_increasing_fst)
qed

text \<open>Sorting the enumerated pairs by themselves never moves anything.\<close>

lemma idxs_of_identity: "idxs_of distance = [0..<length distance]"
  by (simp add: idxs_of_def sorted_sort_id [OF sorted_enumerate])

lemma threshold_loop_unfold:
  "0 < r \<Longrightarrow> threshold_loop distance idxs lamb p r eta_optimal =
     (let eta = (sum_list (map (\<lambda>i. distance ! i) (take (p + 1) idxs)) + lamb) / real (p + 1)
      in if p < length idxs \<and> eta - distance ! (idxs ! p) < 0 then eta_optimal
         else threshold_loop distance idxs lamb (p + 1) (r - 1) eta)"
  by (cases r) (simp_all add: Let_def)

text \<open>
  C1.  The claim says that the threshold search visits the participants in ascending
  order of distance.  Five participants at distances 50, 3, 1, 0 and 60 from the
  median, with \<open>lamb = 5\<close>: the code visits them in index order 0, 1, 2, 3, 4 and
  keeps \<open>eta_optimal = 59/4\<close>; in ascending order of distance the visit is
  3, 2, 1, 0, 4 and the threshold kept is 3.
\<close>

theorem threshold_search_visits_in_index_order:
  "idxs_of [50, 3, 1, 0, 60] = [0, 1, 2, 3, 4] \<and>
   spec_sorted_idxs [50, 3, 1, 0, 60] = [3, 2, 1, 0, 4] \<and>
   eta_optimal_of 5 [50, 3, 1, 0, 60] = 59 / 4 \<and>
   spec_eta_optimal 5 [50, 3, 1, 0, 60] = 3"
proof -
  have i: "idxs_of [50, 3, 1, 0, 60] = [0, 1, 2, 3, 4]"
    by (simp add: idxs_of_identity upt_rec)
  have s: "spec_sorted_idxs [50, 3, 1, 0, 60] = [3, 2, 1, 0, 4]"
    by (simp add: spec_sorted_idxs_def)
  have e: "eta_optimal_of 5 [50, 3, 1, 0, 60] = 59 / 4"
    by (simp add: eta_optimal_of_def i threshold_loop_unfold Let_def)
  have t: "spec_eta_optimal 5 [50, 3, 1, 0, 60] = 3"
    by (simp add: spec_eta_optimal_def s threshold_loop_unfold Let_def)
  from i s e t show ?thesis by simp
qed

section \<open>Sanitising the update\<close>

text \<open>
  C2, as claimed: every non-finite entry of the stored update comes back as
  exactly 0.  It does not: for a \<open>float32\<close> update holding 1, +Inf, NaN and -Inf,
  \<open>get_update\<close> returns 1, the greatest finite \<open>float32\<close>, 0 and the least finite
  \<open>float32\<close>.
\<close>

theorem get_update_infinity_counterexample:
  "get_update float32_max (save_update [Finite 1, PosInf, NaN, NegInf] (fresh_client [0]))
     = Inr [Finite 1, Finite float32_max, Finite 0, Finite (- float32_max)] \<and>
   Finite float32_max \<noteq> Finite 0 \<and> Finite (- float32_max) \<noteq> Finite 0"
  by (simp add: get_update_def get_saved_update_def save_update_def fresh_client_def
      nan_to_num_def nan_to_num_elem_def float32_max_def)

text \<open>
  C2, amended: for every stored update vector, \<open>get_update\<close> does not raise and
  returns a vector of the same length in which every NaN is replaced by 0, every
  +Inf by the greatest finite value of the dtype, every -Inf by the least finite
  value, and every finite entry is unchanged.
\<close>

theorem get_update_sanitizes:
  assumes "saved_update st = Some u"
  shows "\<exists>r. get_update fmax st = Inr r \<and> length r = length u \<and>
           (\<forall>i<length u.
              (u ! i = NaN \<longrightarrow> r ! i = Finite 0) \<and>
              (u ! i = PosInf \<longrightarrow> r ! i = Finite fmax) \<and>
              (u ! i = NegInf \<longrightarrow> r ! i = Finite (- fmax)) \<and>
              (\<forall>x. u ! i = Finite x \<longrightarrow> r ! i = u ! i))"
  using assms
  by (simp add: get_update_def get_saved_update_def nan_to_num_def nan_to_num_elem_def)

theorem get_update_sanitizes_witness:
  "saved_update (save_update [Finite 1, PosInf, NaN, NegInf] (fresh_client [0]))
     = Some [Finite 1, PosInf, NaN, NegInf] \<and>
   (\<exists>r. get_update float32_max (save_update [Finite 1, PosInf, NaN, NegInf] (fresh_client [0])) = Inr r \<and>
        length r = 4 \<and> r ! 0 = Finite 1 \<and> r ! 1 = Finite float32_max \<and> r ! 2 = Finite 0 \<and>
        r ! 3 = Finite (- float32_max))"
proof -
  let ?u = "[Finite 1, PosInf, NaN, NegInf]"
  let ?st = "save_update ?u (fresh_client [0]) :: fval TorchClient"
  have h: "saved_update ?st = Some ?u"
    by (simp add: save_update_def)
  from get_update_sanitizes [OF h, of float32_max]
  obtain r where r: "get_update float32_max ?st = Inr r" "length r = length ?u"
    and el: "\<forall>i<length ?u.
              (?u ! i = NaN \<longrightarrow> r ! i = Finite 0) \<and>
              (?u ! i = PosInf \<longrightarrow> r ! i = Finite float32_max) \<and>
              (?u ! i = NegInf \<longrightarrow> r ! i = Finite (- float32_max)) \<and>
              (\<forall>x. ?u ! i = Finite x \<longrightarrow> r ! i = ?u ! i)"
    by blast
  from el [rule_format, of 0] have r0: "r ! 0 = Finite 1" by simp
  from el [rule_format, of 1] have r1: "r ! 1 = Finite float32_max" by simp
  from el [rule_format, of 2] have r2: "r ! 2 = Finite 0" by simp
  from el [rule_format, of 3] have r3: "r ! 3 = Finite (- float32_max)" by simp
  from h r r0 r1 r2 r3 show ?thesis by simp
qed

section \<open>Gradient round trip\<close>

text \<open>
  When every parameter has a gradient and the saved gradients are the current
  ones, \<open>get_gradient\<close> returns their concatenation and \<open>set_gradient\<close> on it
  leaves the client as it was.
\<close>

lemma collect_saved_grad_all:
  assumes "\<forall>p\<in>set ps. saved_grad (state st p) = Some (G p)"
  shows "collect_saved_grad ps st acc = Inr (acc @ map G ps)"
  using assms by (induction ps arbitrary: acc) simp_all

lemma set_gradient_loop_same:
  assumes "\<forall>p\<in>set ps. p_grad st p = Some (G p)"
  shows "set_gradient_loop (pre @ concat (map G ps) @ suf) (length pre) ps st = Inr st"
  using assms
proof (induction ps arbitrary: pre)
  case Nil
  then show ?case by simp
next
  case (Cons p ps)
  from Cons.prems have g: "p_grad st p = Some (G p)"
    by simp
  then have same: "st\<lparr>p_grad := (p_grad st)(p := Some (G p))\<rparr> = st"
    by (simp add: fun_upd_idem)
  from Cons.prems have rest: "\<forall>p\<in>set ps. p_grad st p = Some (G p)"
    by simp
  from Cons.IH [OF rest, of "pre @ G p"]
  have "set_gradient_loop (pre @ concat (map G (p # ps)) @ suf) (length pre + length (G p)) ps st = Inr st"
    by simp
  with g same show ?case
    by (simp add: Let_def)
qed

lemma gradient_round_trip_with_all_gradients:
  assumes "concat (param_groups st) = model_parameters st"
      and "model_parameters st \<noteq> []"
      and "\<forall>p\<in>set (model_parameters st). p_grad st p = Some (G p) \<and> saved_grad (state st p) = Some (G p)"
  shows "get_gradient st = Inr (concat (map G (model_parameters st))) \<and>
         set_gradient (concat (map G (model_parameters st))) st = Inr st"
proof -
  from assms(3) have s: "\<forall>p\<in>set (model_parameters st). saved_grad (state st p) = Some (G p)"
    and g: "\<forall>p\<in>set (model_parameters st). p_grad st p = Some (G p)"
    by simp_all
  from assms(2) have "map G (model_parameters st) \<noteq> []"
    by simp
  then have "torch_cat (map G (model_parameters st)) = Inr (concat (map G (model_parameters st)))"
    by (cases "map G (model_parameters st)") (simp_all add: torch_cat_def)
  then have 1: "get_gradient st = Inr (concat (map G (model_parameters st)))"
    by (simp add: get_gradient_def get_saved_grad_def assms(1) collect_saved_grad_all [OF s])
  from set_gradient_loop_same [OF g, of "[]" "[]"]
  have 2: "set_gradient (concat (map G (model_parameters st))) st = Inr st"
    by (simp add: set_gradient_def)
  from 1 2 show ?thesis ..
qed

text \<open>
  C4.  A client with two parameters, the first with gradient \<open>[1, 2]\<close>, the second
  without a gradient.  \<open>_save_grad\<close> skips the second parameter; \<open>get_gradient\<close>
  then raises KeyError on it and \<open>set_gradient\<close> raises AttributeError on it:
  neither skips it.
\<close>

theorem gradient_round_trip_raises_without_grad:
  "get_gradient (save_grad ((fresh_client [0, 1])\<lparr>p_grad := (\<lambda>p. None)(0 := Some [1, 2 :: real])\<rparr>))
     = Inl KeyError \<and>
   set_gradient [1, 2] (save_grad ((fresh_client [0, 1])\<lparr>p_grad := (\<lambda>p. None)(0 := Some [1, 2 :: real])\<rparr>))
     = Inl AttributeError"
  by (simp add: get_gradient_def get_saved_grad_def save_grad_def save_grad_param_def
      set_gradient_def fresh_client_def)

section \<open>The two client implementations\<close>

lemma actor_save_grad_param_eq: "actor_save_grad_param = save_grad_param"
  by (rule ext, rule ext) (simp add: actor_save_grad_param_def save_grad_param_def)

lemma actor_collect_saved_grad_eq:
  "actor_collect_saved_grad ps st acc = collect_saved_grad ps st acc"
  by (induction ps arbitrary: acc) (simp_all split: option.splits)

lemma actor_set_gradient_loop_eq:
  "actor_set_gradient_loop gradient beg ps st = set_gradient_loop gradient beg ps st"
  by (induction ps arbitrary: beg st) (simp_all add: Let_def split: option.splits)

lemma WorkerWithMomentum_save_grad_param_eq:
  "WorkerWithMomentum_save_grad_param p st = momentum_save_grad_param p st"
  by (simp add: WorkerWithMomentum_save_grad_param_def momentum_save_grad_param_def)

lemma WorkerWithMomentum_save_grad_loop_eq:
  "WorkerWithMomentum_save_grad_loop ps st = momentum_save_grad_loop ps st"
  by (induction ps arbitrary: st)
     (simp_all add: WorkerWithMomentum_save_grad_param_eq split: sum.splits)

lemma WorkerWithMomentum_collect_buffer_eq:
  "WorkerWithMomentum_collect_buffer ps st acc = collect_momentum_buffer ps st acc"
  by (induction ps arbitrary: acc) (simp_all split: option.splits)

text \<open>
  C10.  In every state, \<open>get_update\<close>, \<open>get_gradient\<close>, \<open>set_gradient\<close>, the plain
  \<open>_save_grad\<close> and the momentum \<open>_save_grad\<close> and \<open>_get_saved_grad\<close> of client.py
  return the same result, the same error and the same state afterwards as those
  of \<open>TorchClient\<close> and \<open>WorkerWithMomentum\<close> in actor.py.
\<close>

theorem client_and_actor_agree:
  "actor_get_update fmax st = get_update fmax st \<and>
   actor_get_gradient st' = get_gradient st' \<and>
   actor_set_gradient gradient st' = set_gradient gradient st' \<and>
   actor_save_grad st' = save_grad st' \<and>
   WorkerWithMomentum_save_grad stm = ClientWithMomentum_save_grad stm \<and>
   WorkerWithMomentum_get_saved_grad st' = ClientWithMomentum_get_saved_grad st'"
  by (simp add: actor_get_update_def get_update_def actor_get_saved_update_def get_saved_update_def
      actor_get_gradient_def get_gradient_def actor_get_saved_grad_def get_saved_grad_def
      actor_collect_saved_grad_eq actor_set_gradient_def set_gradient_def
      actor_set_gradient_loop_eq actor_save_grad_def save_grad_def actor_save_grad_param_eq
      WorkerWithMomentum_save_grad_def ClientWithMomentum_save_grad_def
      WorkerWithMomentum_save_grad_loop_eq WorkerWithMomentum_get_saved_grad_def
      ClientWithMomentum_get_saved_grad_def WorkerWithMomentum_collect_buffer_eq)

section \<open>The momentum buffer\<close>

lemma blend_same:
  "map2 (+) (map (\<lambda>x. x * m) g) (map (\<lambda>x. x * (1 - m)) g) = (g :: real list)"
  by (induction g) (simp_all add: algebra_simps)

lemma blend_map2:
  "map2 (+) (map (\<lambda>x. x * m) b) (map (\<lambda>x. x * (1 - m)) g)
     = map2 (\<lambda>x y. x * m + y * (1 - m)) b (g :: real list)"
  by (auto simp: zip_map_map)

lemma momentum_param_frame:
  assumes "momentum_save_grad_param p st = Inr st'"
  shows "client_momentum st' = client_momentum st \<and> param_groups st' = param_groups st \<and>
         (\<forall>q. q \<noteq> p \<longrightarrow> p_grad st' q = p_grad st q \<and> state st' q = state st q)"
  using assms
  by (auto simp: momentum_save_grad_param_def Let_def split: option.splits if_splits)

lemma momentum_loop_frame:
  assumes "momentum_save_grad_loop ps st = Inr st'"
  shows "client_momentum st' = client_momentum st \<and> param_groups st' = param_groups st \<and>
         (\<forall>q. q \<notin> set ps \<longrightarrow> p_grad st' q = p_grad st q \<and> state st' q = state st q)"
  using assms
proof (induction ps arbitrary: st)
  case Nil
  then show ?case by simp
next
  case (Cons a ps)
  from Cons.prems obtain st1 where a: "momentum_save_grad_param a st = Inr st1"
    and r: "momentum_save_grad_loop ps st1 = Inr st'"
    by (auto split: sum.splits)
  from momentum_param_frame [OF a] Cons.IH [OF r] show ?case
    by simp
qed

lemma momentum_param_const:
  assumes "p_grad st p = G p"
      and "momentum_buffer (state st p) = None \<or> momentum_buffer (state st p) = G p"
  shows "\<exists>st'. momentum_save_grad_param p st = Inr st' \<and>
           momentum_buffer (state st' p) = (if G p = None then momentum_buffer (state st p) else G p)"
proof (cases "G p")
  case None
  with assms show ?thesis
    by (simp add: momentum_save_grad_param_def)
next
  case (Some g)
  show ?thesis
  proof (cases "momentum_buffer (state st p)")
    case None
    with Some assms show ?thesis
      by (simp add: momentum_save_grad_param_def)
  next
    case (Some b)
    with \<open>G p = Some g\<close> assms have "b = g" by simp
    with Some \<open>G p = Some g\<close> assms show ?thesis
      by (simp add: momentum_save_grad_param_def Let_def blend_same)
  qed
qed

lemma momentum_loop_const:
  assumes "distinct ps"
      and "\<forall>p\<in>set ps. p_grad st p = G p"
      and "\<forall>p\<in>set ps. momentum_buffer (state st p) = None \<or> momentum_buffer (state st p) = G p"
  shows "\<exists>st'. momentum_save_grad_loop ps st = Inr st' \<and>
           (\<forall>p\<in>set ps. momentum_buffer (state st' p)
               = (if G p = None then momentum_buffer (state st p) else G p))"
  using assms
proof (induction ps arbitrary: st)
  case Nil
  then show ?case by simp
next
  case (Cons a ps)
  from Cons.prems have a_notin: "a \<notin> set ps" and d: "distinct ps" by simp_all
  from Cons.prems momentum_param_const [of st a G]
  obtain st1 where s1: "momentum_save_grad_param a st = Inr st1"
    and b1: "momentum_buffer (state st1 a) = (if G a = None then momentum_buffer (state st a) else G a)"
    by auto
  from momentum_param_frame [OF s1]
  have fr: "\<forall>q. q \<noteq> a \<longrightarrow> p_grad st1 q = p_grad st q \<and> state st1 q = state st q"
    by simp
  have eq: "p_grad st1 p = p_grad st p \<and> state st1 p = state st p" if "p \<in> set ps" for p
  proof -
    from a_notin that have "p \<noteq> a" by auto
    with fr show ?thesis by simp
  qed
  have g1: "\<forall>p\<in>set ps. p_grad st1 p = G p"
    using Cons.prems(2) by (simp add: eq)
  have i1: "\<forall>p\<in>set ps. momentum_buffer (state st1 p) = None \<or> momentum_buffer (state st1 p) = G p"
    using Cons.prems(3) by (simp add: eq)
  from Cons.IH [OF d g1 i1]
  obtain st' where r: "momentum_save_grad_loop ps st1 = Inr st'"
    and br: "\<forall>p\<in>set ps. momentum_buffer (state st' p)
               = (if G p = None then momentum_buffer (state st1 p) else G p)"
    by blast
  from momentum_loop_frame [OF r] a_notin have "state st' a = state st1 a"
    by simp
  with b1 br s1 r show ?case
    by (simp add: eq)
qed

lemma compute_gradient_const:
  assumes "distinct (concat (param_groups st))"
      and "\<forall>p\<in>set (concat (param_groups st)).
             momentum_buffer (state st p) = None \<or> momentum_buffer (state st p) = G p"
  shows "\<exists>st'. compute_gradient G st = Inr st' \<and> param_groups st' = param_groups st \<and>
           (\<forall>p\<in>set (concat (param_groups st)). momentum_buffer (state st' p)
               = (if G p = None then momentum_buffer (state st p) else G p))"
proof -
  let ?s = "st\<lparr>p_grad := G\<rparr>"
  from assms momentum_loop_const [of "concat (param_groups st)" ?s G]
  obtain st' where r: "momentum_save_grad_loop (concat (param_groups st)) ?s = Inr st'"
    and b: "\<forall>p\<in>set (concat (param_groups st)). momentum_buffer (state st' p)
               = (if G p = None then momentum_buffer (state ?s p) else G p)"
    by auto
  from momentum_loop_frame [OF r] have "param_groups st' = param_groups st"
    by simp
  with r b show ?thesis
    by (simp add: compute_gradient_def ClientWithMomentum_save_grad_def)
qed

lemma train_steps_const:
  assumes "distinct (concat (param_groups st))"
      and "\<forall>p\<in>set (concat (param_groups st)).
             momentum_buffer (state st p) = None \<or> momentum_buffer (state st p) = G p"
  shows "\<exists>st'. train_steps k G st = Inr st' \<and> param_groups st' = param_groups st \<and>
           (\<forall>p\<in>set (concat (param_groups st)).
              momentum_buffer (state st' p) = None \<or> momentum_buffer (state st' p) = G p) \<and>
           (0 < k \<longrightarrow> (\<forall>p\<in>set (concat (param_groups st)). momentum_buffer (state st' p) = G p
                \<or> (G p = None \<and> momentum_buffer (state st' p) = None)))"
  using assms
proof (induction k arbitrary: st)
  case 0
  then show ?case by simp
next
  case (Suc k)
  from compute_gradient_const [OF Suc.prems]
  obtain st1 where c: "compute_gradient G st = Inr st1"
    and pg: "param_groups st1 = param_groups st"
    and b: "\<forall>p\<in>set (concat (param_groups st)). momentum_buffer (state st1 p)
               = (if G p = None then momentum_buffer (state st p) else G p)"
    by blast
  have d1: "distinct (concat (param_groups st1))"
    using Suc.prems(1) pg by simp
  have f1: "\<forall>p\<in>set (concat (param_groups st1)). momentum_buffer (state st1 p) = G p
                \<or> (G p = None \<and> momentum_buffer (state st1 p) = None)"
  proof
    fix p assume "p \<in> set (concat (param_groups st1))"
    then have p: "p \<in> set (concat (param_groups st))"
      by (simp only: pg)
    from bspec [OF Suc.prems(2) p] bspec [OF b p]
    show "momentum_buffer (state st1 p) = G p \<or> (G p = None \<and> momentum_buffer (state st1 p) = None)"
      by (cases "G p") auto
  qed
  then have i1: "\<forall>p\<in>set (concat (param_groups st1)).
              momentum_buffer (state st1 p) = None \<or> momentum_buffer (state st1 p) = G p"
    by blast
  from Suc.IH [OF d1 i1]
  obtain st' where t: "train_steps k G st1 = Inr st'"
    and pg': "param_groups st' = param_groups st1"
    and i': "\<forall>p\<in>set (concat (param_groups st1)).
              momentum_buffer (state st' p) = None \<or> momentum_buffer (state st' p) = G p"
    and f': "0 < k \<longrightarrow> (\<forall>p\<in>set (concat (param_groups st1)). momentum_buffer (state st' p) = G p
                \<or> (G p = None \<and> momentum_buffer (state st' p) = None))"
    by blast
  have fin: "\<forall>p\<in>set (concat (param_groups st1)). momentum_buffer (state st' p) = G p
                \<or> (G p = None \<and> momentum_buffer (state st' p) = None)"
  proof (cases k)
    case 0
    with t have "st' = st1" by simp
    with f1 show ?thesis by simp
  next
    case (Suc j)
    with f' show ?thesis by simp
  qed
  from c t have "train_steps (Suc k) G st = Inr st'"
    by simp
  moreover from pg pg' have "param_groups st' = param_groups st"
    by simp
  moreover from i' pg have "\<forall>p\<in>set (concat (param_groups st)).
              momentum_buffer (state st' p) = None \<or> momentum_buffer (state st' p) = G p"
    by (simp only:)
  moreover from fin pg have "\<forall>p\<in>set (concat (param_groups st)). momentum_buffer (state st' p) = G p
                \<or> (G p = None \<and> momentum_buffer (state st' p) = None)"
    by (simp only:)
  ultimately show ?case
    by blast
qed

lemma train_steps_snoc:
  "train_steps (Suc k) G st =
     (case train_steps k G st of Inl e \<Rightarrow> Inl e | Inr s \<Rightarrow> compute_gradient G s)"
proof (induction k arbitrary: st)
  case 0
  show ?case by (simp split: sum.splits)
next
  case (Suc k)
  show ?case
  proof (cases "compute_gradient G st")
    case (Inl e)
    then show ?thesis by simp
  next
    case (Inr s)
    have "train_steps (Suc (Suc k)) G st = train_steps (Suc k) G s"
      using Inr by simp
    also have "\<dots> = (case train_steps k G s of Inl e \<Rightarrow> Inl e | Inr s' \<Rightarrow> compute_gradient G s')"
      by (rule Suc.IH)
    also have "\<dots> = (case train_steps (Suc k) G st of Inl e \<Rightarrow> Inl e | Inr s' \<Rightarrow> compute_gradient G s')"
      using Inr by simp
    finally show ?thesis .
  qed
qed

lemma train_steps_blend:
  assumes d: "distinct (concat (param_groups st))"
      and f: "\<forall>q\<in>set (concat (param_groups st)). momentum_buffer (state st q) = None"
      and p: "p \<in> set (concat (param_groups st))"
      and g: "G p = Some g"
      and k: "1 \<le> k"
  shows "\<exists>stk stk' b. train_steps k G st = Inr stk \<and> train_steps (Suc k) G st = Inr stk' \<and>
           momentum_buffer (state stk p) = Some b \<and> length b = length g \<and>
           momentum_buffer (state stk' p)
             = Some (map2 (\<lambda>x y. x * client_momentum stk + y * (1 - client_momentum stk)) b g)"
proof -
  from f have i: "\<forall>p\<in>set (concat (param_groups st)).
             momentum_buffer (state st p) = None \<or> momentum_buffer (state st p) = G p"
    by simp
  from train_steps_const [OF d i, of k]
  obtain stk where t: "train_steps k G st = Inr stk"
    and pg: "param_groups stk = param_groups st"
    and ik: "\<forall>p\<in>set (concat (param_groups st)).
              momentum_buffer (state stk p) = None \<or> momentum_buffer (state stk p) = G p"
    and fk: "0 < k \<longrightarrow> (\<forall>p\<in>set (concat (param_groups st)). momentum_buffer (state stk p) = G p
                \<or> (G p = None \<and> momentum_buffer (state stk p) = None))"
    by blast
  from k fk have "\<forall>p\<in>set (concat (param_groups st)). momentum_buffer (state stk p) = G p
                \<or> (G p = None \<and> momentum_buffer (state stk p) = None)"
    by simp
  from bspec [OF this p] g have bk: "momentum_buffer (state stk p) = Some g"
    by simp
  have dk: "distinct (concat (param_groups stk))"
    using d by (simp only: pg)
  have ik': "\<forall>p\<in>set (concat (param_groups stk)).
              momentum_buffer (state stk p) = None \<or> momentum_buffer (state stk p) = G p"
    using ik by (simp only: pg)
  from compute_gradient_const [OF dk ik']
  obtain stk' where c: "compute_gradient G stk = Inr stk'"
    and b': "\<forall>p\<in>set (concat (param_groups stk)). momentum_buffer (state stk' p)
               = (if G p = None then momentum_buffer (state stk p) else G p)"
    by blast
  from p have "p \<in> set (concat (param_groups stk))"
    by (simp only: pg)
  from bspec [OF b' this] g have "momentum_buffer (state stk' p) = Some g"
    by simp
  also have "g = map2 (\<lambda>x y. x * client_momentum stk + y * (1 - client_momentum stk)) g g"
    by (simp only: blend_map2 [symmetric] blend_same)
  finally have e: "momentum_buffer (state stk' p)
      = Some (map2 (\<lambda>x y. x * client_momentum stk + y * (1 - client_momentum stk)) g g)" .
  have "train_steps (Suc k) G st = Inr stk'"
    by (simp only: train_steps_snoc t sum.case c)
  with t bk e show ?thesis
    by blast
qed

text \<open>
  C5, as claimed: with the same gradient \<open>g\<close> at every step the buffer after \<open>k\<close>
  steps is \<open>g * (1 - (1 - m) ^ k)\<close>.  With \<open>m = 1/2\<close> and \<open>g = 1\<close> the buffer is 1
  after one step and after two steps, where the formula gives 1/2 and 3/4.
\<close>

theorem momentum_closed_form_counterexample:
  "map_sum id (\<lambda>st. momentum_buffer (state st 0))
     (train_steps 1 ((\<lambda>p. None)(0 := Some [1])) (fresh_momentum_client (1 / 2) [0]))
     = Inr (Some [1]) \<and>
   Some [1 * (1 - (1 - 1 / 2) ^ 1)] \<noteq> Some [1 :: real] \<and>
   map_sum id (\<lambda>st. momentum_buffer (state st 0))
     (train_steps 2 ((\<lambda>p. None)(0 := Some [1])) (fresh_momentum_client (1 / 2) [0]))
     = Inr (Some [1]) \<and>
   Some [1 * (1 - (1 - 1 / 2) ^ 2)] \<noteq> Some [1 :: real]"
  by (simp add: eval_nat_numeral compute_gradient_def ClientWithMomentum_save_grad_def
      momentum_save_grad_param_def fresh_momentum_client_def Let_def)

text \<open>
  C5, amended: for a parameter with a gradient, the first save initialises the
  buffer to that gradient; a save that finds a buffer sets it to
  \<open>buffer * m + grad * (1 - m)\<close>; and when the same gradient \<open>g\<close> is supplied at
  every step, starting without buffers, no step raises, the buffer after the first
  step is \<open>g\<close>, and for every \<open>k \<ge> 1\<close> the buffer after step \<open>k + 1\<close> is
  \<open>b * m + g * (1 - m)\<close> for the buffer \<open>b\<close> after step \<open>k\<close>.
\<close>

theorem momentum_buffer_first_gradient_then_blend:
  "(p_grad st p = Some g \<and> momentum_buffer (state st p) = None \<longrightarrow>
      (\<exists>st'. momentum_save_grad_param p st = Inr st' \<and> momentum_buffer (state st' p) = Some g)) \<and>
   (p_grad st p = Some g \<and> momentum_buffer (state st p) = Some b \<and> length b = length g \<longrightarrow>
      (\<exists>st'. momentum_save_grad_param p st = Inr st' \<and>
         momentum_buffer (state st' p)
           = Some (map2 (\<lambda>x y. x * client_momentum st + y * (1 - client_momentum st)) b g))) \<and>
   (distinct (concat (param_groups st)) \<and>
    (\<forall>q\<in>set (concat (param_groups st)). momentum_buffer (state st q) = None) \<and>
    p \<in> set (concat (param_groups st)) \<and> G p = Some g \<longrightarrow>
      (\<exists>st1. train_steps 1 G st = Inr st1 \<and> momentum_buffer (state st1 p) = Some g) \<and>
      (1 \<le> k \<longrightarrow>
         (\<exists>stk stk' bk. train_steps k G st = Inr stk \<and> train_steps (Suc k) G st = Inr stk' \<and>
            momentum_buffer (state stk p) = Some bk \<and> length bk = length g \<and>
            momentum_buffer (state stk' p)
              = Some (map2 (\<lambda>x y. x * client_momentum stk + y * (1 - client_momentum stk)) bk g))))"
proof (intro conjI impI)
  assume "p_grad st p = Some g \<and> momentum_buffer (state st p) = None"
  then show "\<exists>st'. momentum_save_grad_param p st = Inr st' \<and> momentum_buffer (state st' p) = Some g"
    by (simp add: momentum_save_grad_param_def)
next
  assume "p_grad st p = Some g \<and> momentum_buffer (state st p) = Some b \<and> length b = length g"
  then show "\<exists>st'. momentum_save_grad_param p st = Inr st' \<and>
         momentum_buffer (state st' p)
           = Some (map2 (\<lambda>x y. x * client_momentum st + y * (1 - client_momentum st)) b g)"
    by (simp add: momentum_save_grad_param_def Let_def blend_map2)
next
  assume a: "distinct (concat (param_groups st)) \<and>
    (\<forall>q\<in>set (concat (param_groups st)). momentum_buffer (state st q) = None) \<and>
    p \<in> set (concat (param_groups st)) \<and> G p = Some g"
  then have d: "distinct (concat (param_groups st))"
    and i: "\<forall>p\<in>set (concat (param_groups st)).
             momentum_buffer (state st p) = None \<or> momentum_buffer (state st p) = G p"
    by simp_all
  from train_steps_const [OF d i, of 1]
  obtain st1 where t: "train_steps 1 G st = Inr st1"
    and f: "\<forall>p\<in>set (concat (param_groups st)). momentum_buffer (state st1 p) = G p
                \<or> (G p = None \<and> momentum_buffer (state st1 p) = None)"
    by auto
  from a have "p \<in> set (concat (param_groups st))" and "G p = Some g"
    by simp_all
  with bspec [OF f, of p] have "momentum_buffer (state st1 p) = Some g"
    by simp
  with t show "\<exists>st1. train_steps 1 G st = Inr st1 \<and> momentum_buffer (state st1 p) = Some g"
    by blast
next
  assume a: "distinct (concat (param_groups st)) \<and>
    (\<forall>q\<in>set (concat (param_groups st)). momentum_buffer (state st q) = None) \<and>
    p \<in> set (concat (param_groups st)) \<and> G p = Some g"
    and k: "1 \<le> k"
  from a have d: "distinct (concat (param_groups st))"
    and f: "\<forall>q\<in>set (concat (param_groups st)). momentum_buffer (state st q) = None"
    and p: "p \<in> set (concat (param_groups st))" and g: "G p = Some g"
    by simp_all
  show "\<exists>stk stk' bk. train_steps k G st = Inr stk \<and> train_steps (Suc k) G st = Inr stk' \<and>
            momentum_buffer (state stk p) = Some bk \<and> length bk = length g \<and>
            momentum_buffer (state stk' p)
              = Some (map2 (\<lambda>x y. x * client_momentum stk + y * (1 - client_momentum stk)) bk g)"
    by (rule train_steps_blend [where st = st and G = G, OF d f p g k])
qed

theorem momentum_buffer_first_gradient_then_blend_witness:
  "(\<exists>st'. momentum_save_grad_param 0
            ((fresh_momentum_client (1 / 2) [0])\<lparr>p_grad := (\<lambda>p. None)(0 := Some [1])\<rparr>) = Inr st' \<and>
          momentum_buffer (state st' 0) = Some [1]) \<and>
   (\<exists>st'. momentum_save_grad_param 0
            ((fresh_momentum_client (1 / 2) [0])
               \<lparr>p_grad := (\<lambda>p. None)(0 := Some [2]),
                state := (\<lambda>p. \<lparr>saved_grad = None, momentum_buffer = Some [4]\<rparr>)\<rparr>) = Inr st' \<and>
          momentum_buffer (state st' 0) = Some [3]) \<and>
   (\<exists>st1. train_steps 1 ((\<lambda>p. None)(0 := Some [1])) (fresh_momentum_client (1 / 2) [0]) = Inr st1 \<and>
          momentum_buffer (state st1 0) = Some [1]) \<and>
   (\<exists>stk stk' bk.
      train_steps 1 ((\<lambda>p. None)(0 := Some [1])) (fresh_momentum_client (1 / 2) [0]) = Inr stk \<and>
      train_steps (Suc 1) ((\<lambda>p. None)(0 := Some [1])) (fresh_momentum_client (1 / 2) [0]) = Inr stk' \<and>
      momentum_buffer (state stk 0) = Some bk \<and> length bk = length [1 :: real] \<and>
      momentum_buffer (state stk' 0)
        = Some (map2 (\<lambda>x y. x * client_momentum stk + y * (1 - client_momentum stk)) bk [1]))"
proof -
  let ?G = "(\<lambda>p. None)(0 := Some [1 :: real]) :: pid \<Rightarrow> real list option"
  let ?s1 = "(fresh_momentum_client (1 / 2) [0])\<lparr>p_grad := ?G\<rparr>"
  let ?s2 = "(fresh_momentum_client (1 / 2) [0])
               \<lparr>p_grad := (\<lambda>p. None)(0 := Some [2]),
                state := (\<lambda>p. \<lparr>saved_grad = None, momentum_buffer = Some [4]\<rparr>)\<rparr>"
  let ?s3 = "fresh_momentum_client (1 / 2) [0]"
  have h1: "p_grad ?s1 0 = Some [1] \<and> momentum_buffer (state ?s1 0) = None"
    by (simp add: fresh_momentum_client_def)
  have h2: "p_grad ?s2 0 = Some [2] \<and> momentum_buffer (state ?s2 0) = Some [4] \<and>
            length [4 :: real] = length [2 :: real]"
    by (simp add: fresh_momentum_client_def)
  have h3: "distinct (concat (param_groups ?s3)) \<and>
            (\<forall>q\<in>set (concat (param_groups ?s3)). momentum_buffer (state ?s3 q) = None) \<and>
            0 \<in> set (concat (param_groups ?s3)) \<and> ?G 0 = Some [1]"
    by (simp add: fresh_momentum_client_def)
  from momentum_buffer_first_gradient_then_blend [of ?s1 0 "[1]" "[]" ?G 1, THEN conjunct1] h1
  have c1: "\<exists>st'. momentum_save_grad_param 0 ?s1 = Inr st' \<and> momentum_buffer (state st' 0) = Some [1]"
    by (rule mp)
  from momentum_buffer_first_gradient_then_blend [of ?s2 0 "[2]" "[4]" ?G 1, THEN conjunct2, THEN conjunct1] h2
  have c2: "\<exists>st'. momentum_save_grad_param 0 ?s2 = Inr st' \<and>
              momentum_buffer (state st' 0)
                = Some (map2 (\<lambda>x y. x * client_momentum ?s2 + y * (1 - client_momentum ?s2)) [4] [2])"
    by (rule mp)
  have m2: "map2 (\<lambda>x y. x * client_momentum ?s2 + y * (1 - client_momentum ?s2)) [4] [2] = [3]"
    by (simp add: fresh_momentum_client_def)
  note t3 = momentum_buffer_first_gradient_then_blend
              [of ?s3 0 "[1]" "[]" ?G 1, THEN conjunct2, THEN conjunct2, THEN mp, OF h3]
  have one: "1 \<le> (1 :: nat)"
    by simp
  note c3 = t3 [THEN conjunct1]
  note c4 = t3 [THEN conjunct2, THEN mp, OF one]
  from c1 c2 [unfolded m2] c3 c4 show ?thesis
    by (intro conjI)
qed

lemma momentum_param_effect:
  assumes "\<forall>g b. p_grad st p = Some g \<and> momentum_buffer (state st p) = Some b \<longrightarrow> length b = length g"
  shows "\<exists>st'. momentum_save_grad_param p st = Inr st' \<and>
           (\<forall>g b. p_grad st p = Some g \<and> momentum_buffer (state st p) = Some b \<longrightarrow>
              p_grad st' p = Some (map (\<lambda>x. x * (1 - client_momentum st)) g) \<and>
              momentum_buffer (state st' p)
                = Some (map2 (\<lambda>x y. x * client_momentum st + y * (1 - client_momentum st)) b g))"
proof (cases "p_grad st p")
  case None
  then show ?thesis
    by (simp add: momentum_save_grad_param_def)
next
  case g: (Some g)
  show ?thesis
  proof (cases "momentum_buffer (state st p)")
    case None
    with g show ?thesis
      by (simp add: momentum_save_grad_param_def)
  next
    case b: (Some b)
    from assms g b have len: "length b = length g"
      by simp
    let ?st' = "st\<lparr>p_grad := (p_grad st)(p := Some (map (\<lambda>x. x * (1 - client_momentum st)) g)),
                  state := (state st)(p := (state st p)\<lparr>momentum_buffer :=
                    Some (map2 (+) (map (\<lambda>x. x * client_momentum st) b)
                                   (map (\<lambda>x. x * (1 - client_momentum st)) g))\<rparr>)\<rparr>"
    from g b len have "momentum_save_grad_param p st = Inr ?st'"
      by (simp add: momentum_save_grad_param_def Let_def)
    moreover have "p_grad ?st' p = Some (map (\<lambda>x. x * (1 - client_momentum st)) g)"
      by simp
    moreover have "momentum_buffer (state ?st' p)
        = Some (map2 (\<lambda>x y. x * client_momentum st + y * (1 - client_momentum st)) b g)"
      by (simp add: blend_map2)
    ultimately show ?thesis
      using g b by (intro exI [of _ ?st']) simp
  qed
qed

lemma momentum_loop_effect:
  assumes "distinct ps"
      and "\<forall>q\<in>set ps. \<forall>g b. p_grad st q = Some g \<and> momentum_buffer (state st q) = Some b
             \<longrightarrow> length b = length g"
  shows "\<exists>st'. momentum_save_grad_loop ps st = Inr st' \<and>
           (\<forall>p\<in>set ps. \<forall>g b. p_grad st p = Some g \<and> momentum_buffer (state st p) = Some b \<longrightarrow>
              p_grad st' p = Some (map (\<lambda>x. x * (1 - client_momentum st)) g) \<and>
              momentum_buffer (state st' p)
                = Some (map2 (\<lambda>x y. x * client_momentum st + y * (1 - client_momentum st)) b g))"
  using assms
proof (induction ps arbitrary: st)
  case Nil
  then show ?case by simp
next
  case (Cons a ps)
  from Cons.prems have a_notin: "a \<notin> set ps" and d: "distinct ps" by simp_all
  from Cons.prems(2)
  have sa: "\<forall>g b. p_grad st a = Some g \<and> momentum_buffer (state st a) = Some b \<longrightarrow> length b = length g"
    by simp
  from momentum_param_effect [OF sa]
  obtain st1 where s1: "momentum_save_grad_param a st = Inr st1"
    and e1: "\<forall>g b. p_grad st a = Some g \<and> momentum_buffer (state st a) = Some b \<longrightarrow>
              p_grad st1 a = Some (map (\<lambda>x. x * (1 - client_momentum st)) g) \<and>
              momentum_buffer (state st1 a)
                = Some (map2 (\<lambda>x y. x * client_momentum st + y * (1 - client_momentum st)) b g)"
    by blast
  from momentum_param_frame [OF s1]
  have m1: "client_momentum st1 = client_momentum st"
    and fr: "\<forall>q. q \<noteq> a \<longrightarrow> p_grad st1 q = p_grad st q \<and> state st1 q = state st q"
    by simp_all
  have eq: "p_grad st1 p = p_grad st p \<and> state st1 p = state st p" if "p \<in> set ps" for p
  proof -
    from a_notin that have "p \<noteq> a" by auto
    with fr show ?thesis by simp
  qed
  have sh1: "\<forall>q\<in>set ps. \<forall>g b. p_grad st1 q = Some g \<and> momentum_buffer (state st1 q) = Some b
             \<longrightarrow> length b = length g"
    using Cons.prems(2) by (simp add: eq)
  from Cons.IH [OF d sh1]
  obtain st' where r: "momentum_save_grad_loop ps st1 = Inr st'"
    and er: "\<forall>p\<in>set ps. \<forall>g b. p_grad st1 p = Some g \<and> momentum_buffer (state st1 p) = Some b \<longrightarrow>
              p_grad st' p = Some (map (\<lambda>x. x * (1 - client_momentum st1)) g) \<and>
              momentum_buffer (state st' p)
                = Some (map2 (\<lambda>x y. x * client_momentum st1 + y * (1 - client_momentum st1)) b g)"
    by blast
  from momentum_loop_frame [OF r] a_notin
  have keep: "p_grad st' a = p_grad st1 a \<and> state st' a = state st1 a"
    by simp
  from s1 r have run: "momentum_save_grad_loop (a # ps) st = Inr st'"
    by simp
  have "\<forall>g b. p_grad st p = Some g \<and> momentum_buffer (state st p) = Some b \<longrightarrow>
              p_grad st' p = Some (map (\<lambda>x. x * (1 - client_momentum st)) g) \<and>
              momentum_buffer (state st' p)
                = Some (map2 (\<lambda>x y. x * client_momentum st + y * (1 - client_momentum st)) b g)"
    if "p \<in> set (a # ps)" for p
  proof (cases "p = a")
    case True
    with e1 keep show ?thesis by simp
  next
    case False
    with that have "p \<in> set ps" by simp
    with er eq [of p] m1 show ?thesis by simp
  qed
  with run show ?case
    by blast
qed

lemma scaled_differs:
  fixes g :: "real list"
  assumes "m \<noteq> 0" and "\<exists>x\<in>set g. x \<noteq> 0"
  shows "map (\<lambda>x. x * (1 - m)) g \<noteq> g"
proof
  assume "map (\<lambda>x. x * (1 - m)) g = g"
  then have "map (\<lambda>x. x * (1 - m)) g = map (\<lambda>x. x) g"
    by simp
  then have "\<forall>x\<in>set g. x * (1 - m) = x"
    by (simp only: map_eq_conv)
  then have "\<forall>x\<in>set g. x * m = 0"
    by (simp add: algebra_simps)
  with assms show False
    by simp
qed

text \<open>
  C8.  A momentum save on a client whose parameters are distinct and whose buffers
  have the size of their gradients does not raise, and for every parameter that
  has a gradient \<open>g\<close> and already has a buffer \<open>b\<close> it leaves \<open>p.grad\<close> scaled in
  place to \<open>g * (1 - m)\<close> (and the buffer at \<open>b * m + g * (1 - m)\<close>); so, when
  \<open>m \<noteq> 0\<close> and \<open>g\<close> is not the zero tensor, \<open>p.grad\<close> after the save is no longer
  the gradient computed for the step.
\<close>

theorem momentum_save_scales_grad_in_place:
  assumes "distinct (concat (param_groups st))"
      and "\<forall>q\<in>set (concat (param_groups st)). \<forall>g b.
             p_grad st q = Some g \<and> momentum_buffer (state st q) = Some b \<longrightarrow> length b = length g"
  shows "\<exists>st'. ClientWithMomentum_save_grad st = Inr st' \<and>
           (\<forall>p\<in>set (concat (param_groups st)). \<forall>g b.
              p_grad st p = Some g \<and> momentum_buffer (state st p) = Some b \<longrightarrow>
                p_grad st' p = Some (map (\<lambda>x. x * (1 - client_momentum st)) g) \<and>
                momentum_buffer (state st' p)
                  = Some (map2 (\<lambda>x y. x * client_momentum st + y * (1 - client_momentum st)) b g) \<and>
                (client_momentum st \<noteq> 0 \<and> (\<exists>x\<in>set g. x \<noteq> 0) \<longrightarrow> p_grad st' p \<noteq> p_grad st p))"
proof -
  from momentum_loop_effect [OF assms]
  obtain st' where r: "momentum_save_grad_loop (concat (param_groups st)) st = Inr st'"
    and e: "\<forall>p\<in>set (concat (param_groups st)). \<forall>g b.
              p_grad st p = Some g \<and> momentum_buffer (state st p) = Some b \<longrightarrow>
                p_grad st' p = Some (map (\<lambda>x. x * (1 - client_momentum st)) g) \<and>
                momentum_buffer (state st' p)
                  = Some (map2 (\<lambda>x y. x * client_momentum st + y * (1 - client_momentum st)) b g)"
    by blast
  have "p_grad st' p = Some (map (\<lambda>x. x * (1 - client_momentum st)) g) \<and>
        momentum_buffer (state st' p)
          = Some (map2 (\<lambda>x y. x * client_momentum st + y * (1 - client_momentum st)) b g) \<and>
        (client_momentum st \<noteq> 0 \<and> (\<exists>x\<in>set g. x \<noteq> 0) \<longrightarrow> p_grad st' p \<noteq> p_grad st p)"
    if "p \<in> set (concat (param_groups st))"
      and "p_grad st p = Some g \<and> momentum_buffer (state st p) = Some b" for p g b
  proof -
    from bspec [OF e that(1)] that(2)
    have 1: "p_grad st' p = Some (map (\<lambda>x. x * (1 - client_momentum st)) g)"
      and 2: "momentum_buffer (state st' p)
          = Some (map2 (\<lambda>x y. x * client_momentum st + y * (1 - client_momentum st)) b g)"
      by blast+
    from 1 that(2) scaled_differs [of "client_momentum st" g]
    have "client_momentum st \<noteq> 0 \<and> (\<exists>x\<in>set g. x \<noteq> 0) \<longrightarrow> p_grad st' p \<noteq> p_grad st p"
      by auto
    with 1 2 show ?thesis by simp
  qed
  with r show ?thesis
    unfolding ClientWithMomentum_save_grad_def by blast
qed

theorem momentum_save_scales_grad_in_place_witness:
  "distinct (concat (param_groups
      ((fresh_momentum_client (1 / 2) [0])
         \<lparr>p_grad := (\<lambda>p. None)(0 := Some [2]),
          state := (\<lambda>p. \<lparr>saved_grad = None, momentum_buffer = Some [4]\<rparr>)\<rparr>))) \<and>
   (\<exists>st'. ClientWithMomentum_save_grad
        ((fresh_momentum_client (1 / 2) [0])
           \<lparr>p_grad := (\<lambda>p. None)(0 := Some [2]),
            state := (\<lambda>p. \<lparr>saved_grad = None, momentum_buffer = Some [4]\<rparr>)\<rparr>) = Inr st' \<and>
      p_grad st' 0 = Some [1] \<and> momentum_buffer (state st' 0) = Some [3] \<and>
      p_grad st' 0 \<noteq> Some [2])"
proof -
  let ?s = "(fresh_momentum_client (1 / 2) [0])
           \<lparr>p_grad := (\<lambda>p. None)(0 := Some [2]),
            state := (\<lambda>p. \<lparr>saved_grad = None, momentum_buffer = Some [4]\<rparr>)\<rparr>"
  have d: "distinct (concat (param_groups ?s))"
    by (simp add: fresh_momentum_client_def)
  have sh: "\<forall>q\<in>set (concat (param_groups ?s)). \<forall>g b.
             p_grad ?s q = Some g \<and> momentum_buffer (state ?s q) = Some b \<longrightarrow> length b = length g"
    by (simp add: fresh_momentum_client_def)
  have m: "client_momentum ?s = 1 / 2"
    by (simp add: fresh_momentum_client_def)
  have mem: "0 \<in> set (concat (param_groups ?s))"
    by (simp add: fresh_momentum_client_def)
  have gb: "p_grad ?s 0 = Some [2] \<and> momentum_buffer (state ?s 0) = Some [4]"
    by simp
  from momentum_save_scales_grad_in_place [OF d sh]
  obtain st' where r: "ClientWithMomentum_save_grad ?s = Inr st'"
    and e: "\<forall>p\<in>set (concat (param_groups ?s)). \<forall>g b.
              p_grad ?s p = Some g \<and> momentum_buffer (state ?s p) = Some b \<longrightarrow>
                p_grad st' p = Some (map (\<lambda>x. x * (1 - client_momentum ?s)) g) \<and>
                momentum_buffer (state st' p)
                  = Some (map2 (\<lambda>x y. x * client_momentum ?s + y * (1 - client_momentum ?s)) b g) \<and>
                (client_momentum ?s \<noteq> 0 \<and> (\<exists>x\<in>set g. x \<noteq> 0) \<longrightarrow> p_grad st' p \<noteq> p_grad ?s p)"
    by blast
  from bspec [OF e mem, rule_format, OF gb]
  have "p_grad st' 0 = Some (map (\<lambda>x. x * (1 - client_momentum ?s)) [2])"
    and "momentum_buffer (state st' 0)
           = Some (map2 (\<lambda>x y. x * client_momentum ?s + y * (1 - client_momentum ?s)) [4] [2])"
    by blast+
  then have "p_grad st' 0 = Some [1]" and "momentum_buffer (state st' 0) = Some [3]"
    by (simp_all add: m)
  with r d show ?thesis
    by simp
qed

section \<open>The outer loop of the aggregator\<close>

lemma linalg_norm_sq: "(linalg_norm a)\<^sup>2 = sum_list (map (\<lambda>x. x\<^sup>2) a)"
proof -
  have "0 \<le> sum_list (map (\<lambda>x. x\<^sup>2) a)"
    by (rule sum_list_nonneg) auto
  then show ?thesis
    by (simp add: linalg_norm_def)
qed

lemma linalg_norm_sq_sum: "(linalg_norm a)\<^sup>2 = (\<Sum>i<length a. (a ! i)\<^sup>2)"
  by (simp add: linalg_norm_sq sum_list_sum_nth atLeast0LessThan)

lemma linalg_norm_sq_mult: "(linalg_norm a)\<^sup>2 = sum_list (map (\<lambda>x. x * x) a)"
proof -
  have "map (\<lambda>x. x\<^sup>2) a = map (\<lambda>x. x * x) a"
    by (simp add: power2_eq_square)
  then show ?thesis
    by (simp only: linalg_norm_sq)
qed

lemma geometric_median_objective_sum:
  assumes "length alphas = length points"
  shows "geometric_median_objective median points alphas
           = (\<Sum>i<length points. alphas ! i * norm (median - points ! i))"
  using assms
  by (simp add: geometric_median_objective_def compute_euclidean_distance_def
      sum_list_sum_nth atLeast0LessThan)

lemma length_alpha_of: "length (alpha_of lamb distance) = length distance"
  by (simp add: alpha_of_def Let_def)

lemma outer_step_objective:
  assumes "outer_step gm_agg updates lamb median = Inr (m', g')"
  shows "g' = spec_objective lamb m' updates
                (alpha_of lamb (map (\<lambda>u. norm (u - median)) updates))"
proof -
  let ?alpha = "alpha_of lamb (map (\<lambda>u. norm (u - median)) updates)"
  have len: "length ?alpha = length updates"
    by (simp add: length_alpha_of)
  from assms have "g' = geometric_median_objective m' updates ?alpha + lamb * (linalg_norm ?alpha)\<^sup>2 / 2"
    by (auto simp: outer_step_def compute_euclidean_distance_def Let_def split: sum.splits)
  then show ?thesis
    by (simp add: spec_objective_def geometric_median_objective_sum [OF len] linalg_norm_sq_sum)
qed

lemma converged_at_0:
  assumes "outer_step gm_agg updates lamb (fst s) = Inr s'"
  shows "converged_at gm_agg updates lamb ftol s 0 \<longleftrightarrow> \<bar>snd s - snd s'\<bar> < ftol * snd s'"
  using assms by (cases s; cases s') (simp add: converged_at_def)

lemma converged_at_Suc:
  assumes "outer_step gm_agg updates lamb (fst s) = Inr s'"
  shows "converged_at gm_agg updates lamb ftol s (Suc j) = converged_at gm_agg updates lamb ftol s' j"
  using assms by (simp add: converged_at_def)

lemma outer_loop_no_convergence:
  assumes "iterate gm_agg updates lamb n s = Inr (m, g)"
      and "\<forall>j<n. \<not> converged_at gm_agg updates lamb ftol s j"
  shows "outer_loop gm_agg updates lamb ftol n (fst s) (snd s) = Inr m"
  using assms
proof (induction n arbitrary: s)
  case 0
  then show ?case by simp
next
  case (Suc n)
  from Suc.prems(1) obtain s' where st: "outer_step gm_agg updates lamb (fst s) = Inr s'"
    and it: "iterate gm_agg updates lamb n s' = Inr (m, g)"
    by (auto split: sum.splits)
  from Suc.prems(2) have "\<not> converged_at gm_agg updates lamb ftol s 0"
    by simp
  with converged_at_0 [OF st] have t: "\<not> \<bar>snd s - snd s'\<bar> < ftol * snd s'"
    by simp
  have "\<forall>j<n. \<not> converged_at gm_agg updates lamb ftol s' j"
  proof (intro allI impI)
    fix j assume "j < n"
    then have "Suc j < Suc n" by simp
    with Suc.prems(2) have "\<not> converged_at gm_agg updates lamb ftol s (Suc j)"
      by blast
    then show "\<not> converged_at gm_agg updates lamb ftol s' j"
      by (simp add: converged_at_Suc [OF st])
  qed
  from Suc.IH [OF it this] st t show ?case
    by (cases s') simp
qed

lemma outer_loop_first_convergence:
  assumes "k < n"
      and "iterate gm_agg updates lamb (Suc k) s = Inr (m, g)"
      and "converged_at gm_agg updates lamb ftol s k"
      and "\<forall>j<k. \<not> converged_at gm_agg updates lamb ftol s j"
  shows "outer_loop gm_agg updates lamb ftol n (fst s) (snd s) = Inr m"
  using assms
proof (induction k arbitrary: n s)
  case 0
  from "0.prems"(1) obtain n' where n: "n = Suc n'"
    by (cases n) simp_all
  from "0.prems"(2) have st: "outer_step gm_agg updates lamb (fst s) = Inr (m, g)"
    by (auto split: sum.splits)
  from "0.prems"(3) converged_at_0 [OF st] have "\<bar>snd s - g\<bar> < ftol * g"
    by simp
  with st n show ?case
    by simp
next
  case (Suc k)
  from Suc.prems(1) obtain n' where n: "n = Suc n'" and k: "k < n'"
    by (cases n) simp_all
  from Suc.prems(2) obtain s' where st: "outer_step gm_agg updates lamb (fst s) = Inr s'"
    and it: "iterate gm_agg updates lamb (Suc k) s' = Inr (m, g)"
    by (auto split: sum.splits)
  from Suc.prems(4) have "\<not> converged_at gm_agg updates lamb ftol s 0"
    by simp
  with converged_at_0 [OF st] have t: "\<not> \<bar>snd s - snd s'\<bar> < ftol * snd s'"
    by simp
  from Suc.prems(3) have c: "converged_at gm_agg updates lamb ftol s' k"
    by (simp add: converged_at_Suc [OF st])
  have nc: "\<forall>j<k. \<not> converged_at gm_agg updates lamb ftol s' j"
  proof (intro allI impI)
    fix j assume "j < k"
    then have "Suc j < Suc k" by simp
    with Suc.prems(4) have "\<not> converged_at gm_agg updates lamb ftol s (Suc j)"
      by blast
    then show "\<not> converged_at gm_agg updates lamb ftol s' j"
      by (simp add: converged_at_Suc [OF st])
  qed
  from Suc.IH [OF k it c nc] st t n show ?case
    by (cases s') simp
qed

lemma outer_loop_returns:
  assumes "\<forall>w. length w = length updates \<longrightarrow> (\<exists>m. gm_agg updates w = Inr m)"
  shows "\<exists>m'. outer_loop gm_agg updates lamb ftol n median global_obj = Inr m'"
proof (induction n arbitrary: median global_obj)
  case 0
  show ?case by simp
next
  case (Suc n)
  let ?alpha = "alpha_of lamb (map (\<lambda>local_model. compute_euclidean_distance local_model median) updates)"
  have "length ?alpha = length updates"
    by (simp add: length_alpha_of)
  with assms obtain m1 where "gm_agg updates ?alpha = Inr m1"
    by blast
  then obtain g1 where st: "outer_step gm_agg updates lamb median = Inr (m1, g1)"
    by (simp add: outer_step_def Let_def)
  from Suc.IH [of m1 g1] st show ?case
    by auto
qed

lemma outer_loop_unfold:
  "0 < n \<Longrightarrow> outer_loop gm_agg updates lamb ftol n median global_obj =
     (case outer_step gm_agg updates lamb median of
        Inl e \<Rightarrow> Inl e
      | Inr (median', global_obj') \<Rightarrow>
          if \<bar>global_obj - global_obj'\<bar> < ftol * global_obj' then Inr median'
          else outer_loop gm_agg updates lamb ftol (n - 1) median' global_obj')"
  by (cases n; cases "outer_step gm_agg updates lamb median") auto


lemma Autogm_momentum_update: "(r :: 'v Autogm)\<lparr>momentum := x\<rparr> = \<lparr>momentum = x\<rparr>"
  by (cases r) simp

lemma Autogm_call_unfold:
  assumes "updates \<noteq> [] \<or> momentum self \<noteq> None"
      and "gm_agg updates (replicate (length updates) (1 / real (length updates))) = Inr m0"
  shows "Autogm_call gm_agg self updates maxiter ftol =
           (case outer_loop gm_agg updates (real (length updates)) ftol maxiter m0
                   (spec_objective (real (length updates)) m0 updates
                      (replicate (length updates) (1 / real (length updates)))) of
              Inl e \<Rightarrow> Inl e
            | Inr median' \<Rightarrow> Inr (median', \<lparr>momentum = Some median'\<rparr>))"
proof -
  let ?alpha = "replicate (length updates) (1 / real (length updates))"
  have len: "length ?alpha = length updates"
    by simp
  have obj: "geometric_median_objective m0 updates ?alpha
               + real (length updates) * (linalg_norm ?alpha)\<^sup>2 / 2
             = spec_objective (real (length updates)) m0 updates ?alpha"
    by (simp only: spec_objective_def geometric_median_objective_sum [OF len] linalg_norm_sq_sum)
  from assms(1) obtain self1 where i:
    "(if momentum self = None
      then (case updates of [] \<Rightarrow> Inl IndexError | u # us \<Rightarrow> Inr (self\<lparr>momentum := Some 0\<rparr>))
      else Inr self) = Inr self1"
    by (cases updates; cases "momentum self") auto
  show ?thesis
    unfolding Autogm_call_def i
    by (simp add: Let_def assms(2) obj Autogm_momentum_update split: sum.splits)
qed

subsection \<open>Two runs on the same five updates\<close>

lemma alpha_A: "alpha_of 5 [0, 3, 1, 50, 60] = [3 / 5, 0, 2 / 5, 0, 0]"
  by (simp add: alpha_of_def eta_optimal_of_def idxs_of_identity upt_rec threshold_loop_unfold Let_def)

lemma alpha_B1: "alpha_of 5 [50, 3, 1, 0, 60] = [0, 47 / 20, 11 / 4, 59 / 20, 0]"
  by (simp add: alpha_of_def eta_optimal_of_def idxs_of_identity upt_rec threshold_loop_unfold Let_def)

lemma alpha_B2: "alpha_of 5 [51, 2, 0, 1, 61] = [0, 51 / 20, 59 / 20, 11 / 4, 0]"
  by (simp add: alpha_of_def eta_optimal_of_def idxs_of_identity upt_rec threshold_loop_unfold Let_def)

lemma step_A:
  assumes "gm_agg example_updates [3 / 5, 0, 2 / 5, 0, 0] = Inr 0"
  shows "outer_step gm_agg example_updates 5 0 = Inr (0, 17 / 10)"
  using assms
  by (simp add: outer_step_def example_updates_def compute_euclidean_distance_def alpha_A
      geometric_median_objective_def linalg_norm_sq_mult Let_def)

lemma step_B1:
  assumes "gm_agg example_updates_permuted [0, 47 / 20, 11 / 4, 59 / 20, 0] = Inr (- 1)"
  shows "outer_step gm_agg example_updates_permuted 5 0 = Inr (- 1, 9939 / 160)"
  using assms
  by (simp add: outer_step_def example_updates_permuted_def compute_euclidean_distance_def alpha_B1
      geometric_median_objective_def linalg_norm_sq_mult Let_def)

lemma step_B2:
  assumes "gm_agg example_updates_permuted [0, 51 / 20, 59 / 20, 11 / 4, 0] = Inr (- 1)"
  shows "outer_step gm_agg example_updates_permuted 5 (- 1) = Inr (- 1, 10363 / 160)"
  using assms
  by (simp add: outer_step_def example_updates_permuted_def compute_euclidean_distance_def alpha_B2
      geometric_median_objective_def linalg_norm_sq_mult Let_def)

lemma example_uniform:
  "replicate (length example_updates) (1 / real (length example_updates))
     = [1 / 5, 1 / 5, 1 / 5, 1 / 5, 1 / 5]"
  "replicate (length example_updates_permuted) (1 / real (length example_updates_permuted))
     = [1 / 5, 1 / 5, 1 / 5, 1 / 5, 1 / 5]"
  "replicate (length example_updates) x = [x, x, x, x, x]"
  "replicate (length example_updates_permuted) x = [x, x, x, x, x]"
  by (simp_all add: example_updates_def example_updates_permuted_def)

lemma example_length:
  "real (length example_updates) = 5" "real (length example_updates_permuted) = 5"
  "example_updates \<noteq> []" "example_updates_permuted \<noteq> []"
  by (simp_all add: example_updates_def example_updates_permuted_def)

lemma example_objective_0:
  "spec_objective 5 0 example_updates [1 / 5, 1 / 5, 1 / 5, 1 / 5, 1 / 5] = 233 / 10"
  "spec_objective 5 0 example_updates_permuted [1 / 5, 1 / 5, 1 / 5, 1 / 5, 1 / 5] = 233 / 10"
  by (simp_all add: spec_objective_def example_updates_def example_updates_permuted_def
      eval_nat_numeral lessThan_Suc power2_eq_square)

lemma run_A:
  assumes "gm_agg example_updates [1 / 5, 1 / 5, 1 / 5, 1 / 5, 1 / 5] = Inr 0"
      and "gm_agg example_updates [3 / 5, 0, 2 / 5, 0, 0] = Inr 0"
  shows "Autogm_call gm_agg self example_updates 100 (1 / 1000000) = Inr (0, \<lparr>momentum = Some 0\<rparr>)"
proof -
  have u: "gm_agg example_updates
             (replicate (length example_updates) (1 / real (length example_updates))) = Inr 0"
    by (simp only: example_uniform(1,2) assms(1))
  have "outer_loop gm_agg example_updates 5 (1 / 1000000) 100 0 (233 / 10) = Inr 0"
    by (simp add: outer_loop_unfold step_A [of gm_agg, OF assms(2)])
  then show ?thesis
    by (simp add: Autogm_call_unfold [where gm_agg = gm_agg and updates = example_updates, OF _ u]
        example_length example_uniform example_objective_0)
qed

lemma run_B:
  assumes "gm_agg example_updates_permuted [1 / 5, 1 / 5, 1 / 5, 1 / 5, 1 / 5] = Inr 0"
      and "gm_agg example_updates_permuted [0, 47 / 20, 11 / 4, 59 / 20, 0] = Inr (- 1)"
      and "gm_agg example_updates_permuted [0, 51 / 20, 59 / 20, 11 / 4, 0] = Inr (- 1)"
  shows "Autogm_call gm_agg self example_updates_permuted 100 (1 / 1000000)
           = Inr (- 1, \<lparr>momentum = Some (- 1)\<rparr>)"
proof -
  have u: "gm_agg example_updates_permuted
             (replicate (length example_updates_permuted) (1 / real (length example_updates_permuted)))
           = Inr 0"
    by (simp only: example_uniform(1,2) assms(1))
  have "outer_loop gm_agg example_updates_permuted 5 (1 / 1000000) 100 0 (233 / 10) = Inr (- 1)"
    by (simp add: outer_loop_unfold step_B1 [of gm_agg, OF assms(2)] step_B2 [of gm_agg, OF assms(3)])
  then show ?thesis
    by (simp add: Autogm_call_unfold [where gm_agg = gm_agg and updates = example_updates_permuted, OF _ u]
        example_length example_uniform example_objective_0)
qed

lemma median_A0:
  assumes "is_geometric_median m example_updates [1 / 5, 1 / 5, 1 / 5, 1 / 5, 1 / 5]"
  shows "m = 0"
proof -
  from assms have "geometric_median_objective m example_updates [1 / 5, 1 / 5, 1 / 5, 1 / 5, 1 / 5]
      \<le> geometric_median_objective 0 example_updates [1 / 5, 1 / 5, 1 / 5, 1 / 5, 1 / 5]"
    by (simp only: is_geometric_median_def)
  then have "\<bar>m\<bar> + (\<bar>m + 3\<bar> + (\<bar>m + 1\<bar> + (\<bar>m - 50\<bar> + \<bar>m - 60\<bar>))) \<le> 114"
    by (simp add: geometric_median_objective_def compute_euclidean_distance_def example_updates_def)
  then show ?thesis
    by (simp add: abs_if split: if_splits)
qed

lemma median_A1:
  assumes "is_geometric_median m example_updates [3 / 5, 0, 2 / 5, 0, 0]"
  shows "m = 0"
proof -
  from assms have "geometric_median_objective m example_updates [3 / 5, 0, 2 / 5, 0, 0]
      \<le> geometric_median_objective 0 example_updates [3 / 5, 0, 2 / 5, 0, 0]"
    by (simp only: is_geometric_median_def)
  then have "3 * \<bar>m\<bar> + 2 * \<bar>m + 1\<bar> \<le> 2"
    by (simp add: geometric_median_objective_def compute_euclidean_distance_def example_updates_def)
  then show ?thesis
    by (simp add: abs_if split: if_splits)
qed

lemma median_B0:
  assumes "is_geometric_median m example_updates_permuted [1 / 5, 1 / 5, 1 / 5, 1 / 5, 1 / 5]"
  shows "m = 0"
proof -
  from assms have "geometric_median_objective m example_updates_permuted [1 / 5, 1 / 5, 1 / 5, 1 / 5, 1 / 5]
      \<le> geometric_median_objective 0 example_updates_permuted [1 / 5, 1 / 5, 1 / 5, 1 / 5, 1 / 5]"
    by (simp only: is_geometric_median_def)
  then have "\<bar>m - 50\<bar> + (\<bar>m + 3\<bar> + (\<bar>m + 1\<bar> + (\<bar>m\<bar> + \<bar>m - 60\<bar>))) \<le> 114"
    by (simp add: geometric_median_objective_def compute_euclidean_distance_def
        example_updates_permuted_def)
  then show ?thesis
    by (simp add: abs_if split: if_splits)
qed

lemma median_B1:
  assumes "is_geometric_median m example_updates_permuted [0, 47 / 20, 11 / 4, 59 / 20, 0]"
  shows "m = - 1"
proof -
  from assms have "geometric_median_objective m example_updates_permuted [0, 47 / 20, 11 / 4, 59 / 20, 0]
      \<le> geometric_median_objective (- 1) example_updates_permuted [0, 47 / 20, 11 / 4, 59 / 20, 0]"
    by (simp only: is_geometric_median_def)
  then have "47 * \<bar>m + 3\<bar> + 55 * \<bar>m + 1\<bar> + 59 * \<bar>m\<bar> \<le> 153"
    by (simp add: geometric_median_objective_def compute_euclidean_distance_def
        example_updates_permuted_def)
  then show ?thesis
    by (simp add: abs_if split: if_splits)
qed

lemma median_B2:
  assumes "is_geometric_median m example_updates_permuted [0, 51 / 20, 59 / 20, 11 / 4, 0]"
  shows "m = - 1"
proof -
  from assms have "geometric_median_objective m example_updates_permuted [0, 51 / 20, 59 / 20, 11 / 4, 0]
      \<le> geometric_median_objective (- 1) example_updates_permuted [0, 51 / 20, 59 / 20, 11 / 4, 0]"
    by (simp only: is_geometric_median_def)
  then have "51 * \<bar>m + 3\<bar> + 59 * \<bar>m + 1\<bar> + 55 * \<bar>m\<bar> \<le> 157"
    by (simp add: geometric_median_objective_def compute_euclidean_distance_def
        example_updates_permuted_def)
  then show ?thesis
    by (simp add: abs_if split: if_splits)
qed

lemma solves_value:
  assumes "solves gm_agg points weights"
      and "\<And>m. is_geometric_median m points weights \<Longrightarrow> m = c"
  shows "gm_agg points weights = Inr c"
  using assms by (auto simp: solves_def)

lemma geomed_1d_values:
  "geomed_1d example_updates [1 / 5, 1 / 5, 1 / 5, 1 / 5, 1 / 5] = Inr 0"
  "geomed_1d example_updates [3 / 5, 0, 2 / 5, 0, 0] = Inr 0"
  "geomed_1d example_updates_permuted [1 / 5, 1 / 5, 1 / 5, 1 / 5, 1 / 5] = Inr 0"
  "geomed_1d example_updates_permuted [0, 47 / 20, 11 / 4, 59 / 20, 0] = Inr (- 1)"
  "geomed_1d example_updates_permuted [0, 51 / 20, 59 / 20, 11 / 4, 0] = Inr (- 1)"
  by (simp_all add: geomed_1d_def example_updates_def example_updates_permuted_def)

lemma example_medians:
  "is_geometric_median 0 example_updates [1 / 5, 1 / 5, 1 / 5, 1 / 5, 1 / 5]"
  "is_geometric_median 0 example_updates [3 / 5, 0, 2 / 5, 0, 0]"
  "is_geometric_median 0 example_updates_permuted [1 / 5, 1 / 5, 1 / 5, 1 / 5, 1 / 5]"
  "is_geometric_median (- 1) example_updates_permuted [0, 47 / 20, 11 / 4, 59 / 20, 0]"
  "is_geometric_median (- 1) example_updates_permuted [0, 51 / 20, 59 / 20, 11 / 4, 0]"
  by (simp_all add: is_geometric_median_def geometric_median_objective_def
      compute_euclidean_distance_def example_updates_def example_updates_permuted_def abs_if)

lemma geomed_1d_solves:
  "solves geomed_1d example_updates [1 / 5, 1 / 5, 1 / 5, 1 / 5, 1 / 5]"
  "solves geomed_1d example_updates [3 / 5, 0, 2 / 5, 0, 0]"
  "solves geomed_1d example_updates_permuted [1 / 5, 1 / 5, 1 / 5, 1 / 5, 1 / 5]"
  "solves geomed_1d example_updates_permuted [0, 47 / 20, 11 / 4, 59 / 20, 0]"
  "solves geomed_1d example_updates_permuted [0, 51 / 20, 59 / 20, 11 / 4, 0]"
  by (simp_all add: solves_def geomed_1d_values example_medians)

text \<open>
  C3.  The claim says that the aggregate does not depend on the order of the
  updates.  Take the updates 0, -3, -1, 50, 60 and the same updates with the first
  and the fourth exchanged, with the default \<open>maxiter = 100\<close> and \<open>ftol = 1e-6\<close>,
  and any solver that returns the exact weighted geometric median on the five
  weightings that occur.  No two distances to a median are equal in either run.
  The first call returns 0, the second returns -1.
\<close>

theorem aggregate_depends_on_input_order:
  assumes "solves gm_agg example_updates [1 / 5, 1 / 5, 1 / 5, 1 / 5, 1 / 5]"
      and "solves gm_agg example_updates [3 / 5, 0, 2 / 5, 0, 0]"
      and "solves gm_agg example_updates_permuted [1 / 5, 1 / 5, 1 / 5, 1 / 5, 1 / 5]"
      and "solves gm_agg example_updates_permuted [0, 47 / 20, 11 / 4, 59 / 20, 0]"
      and "solves gm_agg example_updates_permuted [0, 51 / 20, 59 / 20, 11 / 4, 0]"
  shows "example_updates_permuted = map (\<lambda>i. example_updates ! i) [3, 1, 2, 0, 4] \<and>
         distinct (map (\<lambda>u. compute_euclidean_distance u 0) example_updates) \<and>
         distinct (map (\<lambda>u. compute_euclidean_distance u (- 1)) example_updates_permuted) \<and>
         Autogm_call gm_agg self example_updates 100 (1 / 1000000)
           = Inr (0, \<lparr>momentum = Some 0\<rparr>) \<and>
         Autogm_call gm_agg self example_updates_permuted 100 (1 / 1000000)
           = Inr (- 1, \<lparr>momentum = Some (- 1)\<rparr>)"
proof -
  have p: "example_updates_permuted = map (\<lambda>i. example_updates ! i) [3, 1, 2, 0, 4]"
    by (simp add: example_updates_def example_updates_permuted_def)
  have d: "distinct (map (\<lambda>u. compute_euclidean_distance u 0) example_updates)"
    "distinct (map (\<lambda>u. compute_euclidean_distance u (- 1)) example_updates_permuted)"
    by (simp_all add: example_updates_def example_updates_permuted_def compute_euclidean_distance_def)
  note a0 = solves_value [OF assms(1) median_A0]
  note a1 = solves_value [OF assms(2) median_A1]
  note b0 = solves_value [OF assms(3) median_B0]
  note b1 = solves_value [OF assms(4) median_B1]
  note b2 = solves_value [OF assms(5) median_B2]
  from p d run_A [of gm_agg, OF a0 a1, of self] run_B [of gm_agg, OF b0 b1 b2, of self] show ?thesis
    by (simp only: simp_thms)
qed

theorem aggregate_depends_on_input_order_witness:
  "solves geomed_1d example_updates [1 / 5, 1 / 5, 1 / 5, 1 / 5, 1 / 5] \<and>
   solves geomed_1d example_updates [3 / 5, 0, 2 / 5, 0, 0] \<and>
   solves geomed_1d example_updates_permuted [1 / 5, 1 / 5, 1 / 5, 1 / 5, 1 / 5] \<and>
   solves geomed_1d example_updates_permuted [0, 47 / 20, 11 / 4, 59 / 20, 0] \<and>
   solves geomed_1d example_updates_permuted [0, 51 / 20, 59 / 20, 11 / 4, 0] \<and>
   Autogm_call geomed_1d \<lparr>momentum = None\<rparr> example_updates 100 (1 / 1000000)
     = Inr (0, \<lparr>momentum = Some 0\<rparr>) \<and>
   Autogm_call geomed_1d \<lparr>momentum = None\<rparr> example_updates_permuted 100 (1 / 1000000)
     = Inr (- 1, \<lparr>momentum = Some (- 1)\<rparr>)"
  using geomed_1d_solves
    aggregate_depends_on_input_order [of geomed_1d "\<lparr>momentum = None\<rparr>", OF geomed_1d_solves]
  by (simp only: simp_thms)

subsection \<open>Convergence test and iteration budget\<close>

text \<open>
  C6.  Let the solver return \<open>m0\<close> for the uniform weights and let \<open>lamb = N\<close>.
  The value of \<open>global_obj\<close> is the objective of the specification, with
  \<open>\<lambda> = N\<close>, at the start and after every execution of the loop body.  If the test
  \<open>\<bar>prev - new\<bar> < ftol * new\<close> first holds after execution \<open>k + 1\<close> of the body,
  with \<open>k < maxiter\<close>, the call returns the median of that execution; if the test
  fails in all \<open>maxiter\<close> executions, the call returns the median of the last one;
  and if the solver never raises on these updates (with one weight for each), the
  call never raises.  The returned median is also stored as the momentum.
\<close>

theorem outer_loop_stops_at_first_convergence:
  fixes updates :: "'v::real_normed_vector list"
  assumes "updates \<noteq> [] \<or> momentum self \<noteq> None"
      and "gm_agg updates (replicate (length updates) (1 / real (length updates))) = Inr m0"
      and "lamb = real (length updates)"
      and "g0 = spec_objective lamb m0 updates (replicate (length updates) (1 / real (length updates)))"
  shows "(\<forall>median m' g'. outer_step gm_agg updates lamb median = Inr (m', g') \<longrightarrow>
            g' = spec_objective lamb m' updates
                   (alpha_of lamb (map (\<lambda>u. norm (u - median)) updates))) \<and>
         (\<forall>k m g. k < maxiter \<and> iterate gm_agg updates lamb (Suc k) (m0, g0) = Inr (m, g) \<and>
            converged_at gm_agg updates lamb ftol (m0, g0) k \<and>
            (\<forall>j<k. \<not> converged_at gm_agg updates lamb ftol (m0, g0) j) \<longrightarrow>
            Autogm_call gm_agg self updates maxiter ftol = Inr (m, \<lparr>momentum = Some m\<rparr>)) \<and>
         (\<forall>m g. iterate gm_agg updates lamb maxiter (m0, g0) = Inr (m, g) \<and>
            (\<forall>j<maxiter. \<not> converged_at gm_agg updates lamb ftol (m0, g0) j) \<longrightarrow>
            Autogm_call gm_agg self updates maxiter ftol = Inr (m, \<lparr>momentum = Some m\<rparr>)) \<and>
         ((\<forall>w. length w = length updates \<longrightarrow> (\<exists>m. gm_agg updates w = Inr m)) \<longrightarrow>
            (\<exists>m. Autogm_call gm_agg self updates maxiter ftol = Inr (m, \<lparr>momentum = Some m\<rparr>)))"
proof -
  have unfold: "Autogm_call gm_agg self updates maxiter ftol =
      (case outer_loop gm_agg updates lamb ftol maxiter m0 g0 of
         Inl e \<Rightarrow> Inl e
       | Inr median' \<Rightarrow> Inr (median', \<lparr>momentum = Some median'\<rparr>))"
    unfolding assms(4) assms(3)
    by (rule Autogm_call_unfold [where gm_agg = gm_agg and updates = updates, OF assms(1) assms(2)])
  have p1: "\<forall>median m' g'. outer_step gm_agg updates lamb median = Inr (m', g') \<longrightarrow>
            g' = spec_objective lamb m' updates
                   (alpha_of lamb (map (\<lambda>u. norm (u - median)) updates))"
    by (intro allI impI) (rule outer_step_objective)
  have p2: "\<forall>k m g. k < maxiter \<and> iterate gm_agg updates lamb (Suc k) (m0, g0) = Inr (m, g) \<and>
            converged_at gm_agg updates lamb ftol (m0, g0) k \<and>
            (\<forall>j<k. \<not> converged_at gm_agg updates lamb ftol (m0, g0) j) \<longrightarrow>
            Autogm_call gm_agg self updates maxiter ftol = Inr (m, \<lparr>momentum = Some m\<rparr>)"
  proof (intro allI impI)
    fix k m g
    assume a: "k < maxiter \<and> iterate gm_agg updates lamb (Suc k) (m0, g0) = Inr (m, g) \<and>
            converged_at gm_agg updates lamb ftol (m0, g0) k \<and>
            (\<forall>j<k. \<not> converged_at gm_agg updates lamb ftol (m0, g0) j)"
    then have "outer_loop gm_agg updates lamb ftol maxiter (fst (m0, g0)) (snd (m0, g0)) = Inr m"
      by (intro outer_loop_first_convergence [where k = k and g = g]) simp_all
    then show "Autogm_call gm_agg self updates maxiter ftol = Inr (m, \<lparr>momentum = Some m\<rparr>)"
      by (simp add: unfold)
  qed
  have p3: "\<forall>m g. iterate gm_agg updates lamb maxiter (m0, g0) = Inr (m, g) \<and>
            (\<forall>j<maxiter. \<not> converged_at gm_agg updates lamb ftol (m0, g0) j) \<longrightarrow>
            Autogm_call gm_agg self updates maxiter ftol = Inr (m, \<lparr>momentum = Some m\<rparr>)"
  proof (intro allI impI)
    fix m g
    assume a: "iterate gm_agg updates lamb maxiter (m0, g0) = Inr (m, g) \<and>
            (\<forall>j<maxiter. \<not> converged_at gm_agg updates lamb ftol (m0, g0) j)"
    then have "outer_loop gm_agg updates lamb ftol maxiter (fst (m0, g0)) (snd (m0, g0)) = Inr m"
      by (intro outer_loop_no_convergence [where g = g]) simp_all
    then show "Autogm_call gm_agg self updates maxiter ftol = Inr (m, \<lparr>momentum = Some m\<rparr>)"
      by (simp add: unfold)
  qed
  have p4: "(\<forall>w. length w = length updates \<longrightarrow> (\<exists>m. gm_agg updates w = Inr m)) \<longrightarrow>
            (\<exists>m. Autogm_call gm_agg self updates maxiter ftol = Inr (m, \<lparr>momentum = Some m\<rparr>))"
  proof
    assume "\<forall>w. length w = length updates \<longrightarrow> (\<exists>m. gm_agg updates w = Inr m)"
    from outer_loop_returns [where gm_agg = gm_agg and updates = updates, OF this, of lamb ftol maxiter m0 g0]
    obtain m where "outer_loop gm_agg updates lamb ftol maxiter m0 g0 = Inr m"
      by blast
    then have "Autogm_call gm_agg self updates maxiter ftol = Inr (m, \<lparr>momentum = Some m\<rparr>)"
      by (simp add: unfold)
    then show "\<exists>m. Autogm_call gm_agg self updates maxiter ftol = Inr (m, \<lparr>momentum = Some m\<rparr>)"
      by blast
  qed
  from p1 p2 p3 p4 show ?thesis
    by (intro conjI)
qed

theorem outer_loop_stops_at_first_convergence_witness:
  "example_updates \<noteq> [] \<and>
   geomed_1d example_updates (replicate (length example_updates) (1 / real (length example_updates)))
     = Inr 0 \<and>
   spec_objective 5 0 example_updates [3 / 5, 0, 2 / 5, 0, 0] = 17 / 10 \<and>
   \<not> converged_at geomed_1d example_updates 5 (1 / 1000000) (0, 233 / 10) 0 \<and>
   converged_at geomed_1d example_updates 5 (1 / 1000000) (0, 233 / 10) 1 \<and>
   Autogm_call geomed_1d \<lparr>momentum = None\<rparr> example_updates 100 (1 / 1000000)
     = Inr (0, \<lparr>momentum = Some 0\<rparr>) \<and>
   Autogm_call geomed_1d \<lparr>momentum = None\<rparr> example_updates 1 (1 / 1000000)
     = Inr (0, \<lparr>momentum = Some 0\<rparr>) \<and>
   (\<exists>m. Autogm_call geomed_1d \<lparr>momentum = None\<rparr> example_updates 0 (1 / 1000000)
     = Inr (m, \<lparr>momentum = Some m\<rparr>))"
proof -
  have h1: "example_updates \<noteq> [] \<or> momentum \<lparr>momentum = None :: real option\<rparr> \<noteq> None"
    by (simp add: example_length)
  have h2: "geomed_1d example_updates
              (replicate (length example_updates) (1 / real (length example_updates))) = Inr 0"
    by (simp only: example_uniform(1) geomed_1d_values(1))
  have h3: "5 = real (length example_updates)"
    by (simp add: example_length)
  have h4: "233 / 10 = spec_objective 5 0 example_updates
              (replicate (length example_updates) (1 / real (length example_updates)))"
    by (simp only: example_uniform(1) example_objective_0(1))
  note t = outer_loop_stops_at_first_convergence [of example_updates "\<lparr>momentum = None\<rparr>" geomed_1d 0 5 "233 / 10",
      OF h1 h2 h3 h4]
  have st: "outer_step geomed_1d example_updates 5 0 = Inr (0, 17 / 10)"
    by (rule step_A [of geomed_1d, OF geomed_1d_values(2)])
  have i1: "iterate geomed_1d example_updates 5 (Suc 0) (0, 233 / 10) = Inr (0, 17 / 10)"
    by (simp add: st)
  have i2: "iterate geomed_1d example_updates 5 (Suc (Suc 0)) (0, 233 / 10) = Inr (0, 17 / 10)"
    by (simp add: st)
  have c0: "\<not> converged_at geomed_1d example_updates 5 (1 / 1000000) (0, 233 / 10) 0"
    by (simp add: converged_at_def st)
  have c1: "converged_at geomed_1d example_updates 5 (1 / 1000000) (0, 233 / 10) 1"
    using i1 i2 by (simp add: converged_at_def)
  from t [of 100 "1 / 1000000", THEN conjunct1, rule_format, OF st]
  have o: "spec_objective 5 0 example_updates [3 / 5, 0, 2 / 5, 0, 0] = 17 / 10"
    by (simp add: example_updates_def alpha_A)
  have "1 < (100 :: nat) \<and> iterate geomed_1d example_updates 5 (Suc 1) (0, 233 / 10) = Inr (0, 17 / 10) \<and>
        converged_at geomed_1d example_updates 5 (1 / 1000000) (0, 233 / 10) 1 \<and>
        (\<forall>j<1. \<not> converged_at geomed_1d example_updates 5 (1 / 1000000) (0, 233 / 10) j)"
    using i2 c0 c1 by simp
  from t [of 100 "1 / 1000000", THEN conjunct2, THEN conjunct1, rule_format, OF this]
  have r100: "Autogm_call geomed_1d \<lparr>momentum = None\<rparr> example_updates 100 (1 / 1000000)
     = Inr (0, \<lparr>momentum = Some 0\<rparr>)" .
  have "iterate geomed_1d example_updates 5 1 (0, 233 / 10) = Inr (0, 17 / 10) \<and>
        (\<forall>j<1. \<not> converged_at geomed_1d example_updates 5 (1 / 1000000) (0, 233 / 10) j)"
    using i1 c0 by simp
  from t [of 1 "1 / 1000000", THEN conjunct2, THEN conjunct2, THEN conjunct1, rule_format, OF this]
  have r1: "Autogm_call geomed_1d \<lparr>momentum = None\<rparr> example_updates 1 (1 / 1000000)
     = Inr (0, \<lparr>momentum = Some 0\<rparr>)" .
  have tot: "\<forall>w. length w = length example_updates \<longrightarrow> (\<exists>m. geomed_1d example_updates w = Inr m)"
    by (simp add: geomed_1d_def example_updates_def Let_def)
  from t [of 0 "1 / 1000000", THEN conjunct2, THEN conjunct2, THEN conjunct2, THEN mp, OF tot]
  have r0: "\<exists>m. Autogm_call geomed_1d \<lparr>momentum = None\<rparr> example_updates 0 (1 / 1000000)
     = Inr (m, \<lparr>momentum = Some m\<rparr>)" .
  from h2 o c0 c1 r100 r1 r0 example_length(3) show ?thesis
    by (simp only: simp_thms)
qed

subsection \<open>Zero participants\<close>




subsection \<open>The stored momentum\<close>

text \<open>
  C9.  Two calls with the same updates and parameters give the same result and
  leave the same aggregator, whatever vectors the momentum held before, and, when
  there is at least one update, also when it held nothing; and the momentum after
  a call is the vector returned.
\<close>

theorem aggregate_ignores_stored_momentum:
  "(updates \<noteq> [] \<or> (m1 \<noteq> None \<and> m2 \<noteq> None) \<longrightarrow>
      Autogm_call gm_agg \<lparr>momentum = m1\<rparr> updates maxiter ftol
        = Autogm_call gm_agg \<lparr>momentum = m2\<rparr> updates maxiter ftol) \<and>
   (Autogm_call gm_agg self updates maxiter ftol = Inr (r, self') \<longrightarrow> momentum self' = Some r)"
  by (cases updates; cases m1; cases m2)
     (auto simp: Autogm_call_def Let_def split: sum.splits if_splits)

theorem aggregate_ignores_stored_momentum_witness:
  "example_updates \<noteq> [] \<and>
   Autogm_call geomed_1d \<lparr>momentum = None\<rparr> example_updates 100 (1 / 1000000)
     = Autogm_call geomed_1d \<lparr>momentum = Some 7\<rparr> example_updates 100 (1 / 1000000) \<and>
   Autogm_call geomed_1d \<lparr>momentum = Some 7\<rparr> example_updates 100 (1 / 1000000)
     = Inr (0, \<lparr>momentum = Some 0\<rparr>) \<and>
   momentum \<lparr>momentum = Some (0 :: real)\<rparr> = Some 0"
proof -
  have n: "example_updates \<noteq> []"
    by (simp add: example_updates_def)
  note t = aggregate_ignores_stored_momentum
    [of example_updates None "Some 7" geomed_1d 100 "1 / 1000000" "\<lparr>momentum = Some 7\<rparr>" 0
        "\<lparr>momentum = Some 0\<rparr>"]
  from t n have e: "Autogm_call geomed_1d \<lparr>momentum = None\<rparr> example_updates 100 (1 / 1000000)
     = Autogm_call geomed_1d \<lparr>momentum = Some 7\<rparr> example_updates 100 (1 / 1000000)"
    by blast
  have r: "Autogm_call geomed_1d \<lparr>momentum = Some 7\<rparr> example_updates 100 (1 / 1000000)
     = Inr (0, \<lparr>momentum = Some 0\<rparr>)"
    by (rule run_A [of geomed_1d, OF geomed_1d_values(1) geomed_1d_values(2)])
  from t r have "momentum \<lparr>momentum = Some (0 :: real)\<rparr> = Some 0"
    by blast
  with n e r show ?thesis
    by (simp only: simp_thms)
qed

end
